theory Spec2Isabelle
  imports Complex_Main "HOL-Library.Signed_Division"
begin

section \<open>Data model\<close>

text \<open>
  The C++ \<^verbatim>\<open>float\<close> is modelled by \<^typ>\<open>real\<close>: the values are taken finite and the
  rounding of the arithmetic is not modelled. Where a computation of the source leaves the
  finite numbers or the defined behaviour of C++ (a null handle dereferenced, a vector read
  out of range, a variable read before it is written, a square root of a negative number)
  the model returns a \<open>fault\<close> instead of a value.
\<close>

datatype fault =
    NullDereference
  | OutOfBounds
  | UninitialisedRead
  | NotANumber
  | NonTermination

record Point2D =
  x :: real
  y :: real

record Pose2D = Point2D +
  theta_rad :: real

text \<open>\<^verbatim>\<open>Eigen::Matrix2f\<close>, row by row, with the operations \<open>updateLMBelief\<close> calls.
  Eigen inverts a 2x2 matrix by the adjugate scaled with the reciprocal determinant.\<close>

datatype Matrix2f = Matrix2f real real real real

definition Identity2f :: Matrix2f where
  "Identity2f = Matrix2f 1 0 0 1"

fun determinant :: "Matrix2f \<Rightarrow> real" where
  "determinant (Matrix2f a b c d) = a * d - b * c"

fun inverse2f :: "Matrix2f \<Rightarrow> Matrix2f" where
  "inverse2f (Matrix2f a b c d) =
     (let invdet = 1 / (a * d - b * c)
      in Matrix2f (d * invdet) (- b * invdet) (- c * invdet) (a * invdet))"

fun transpose2f :: "Matrix2f \<Rightarrow> Matrix2f" where
  "transpose2f (Matrix2f a b c d) = Matrix2f a c b d"

fun mult2f :: "Matrix2f \<Rightarrow> Matrix2f \<Rightarrow> Matrix2f" where
  "mult2f (Matrix2f a b c d) (Matrix2f e f g h) =
     Matrix2f (a * e + b * g) (a * f + b * h) (c * e + d * g) (c * f + d * h)"

text \<open>\<^verbatim>\<open>Eigen::Vector3f\<close> and \<^verbatim>\<open>Eigen::Matrix3f\<close> (three rows).\<close>

type_synonym Vector3f = "real \<times> real \<times> real"

datatype Matrix3f = Matrix3f Vector3f Vector3f Vector3f

text \<open>
  The robot manager is an object behind a shared pointer; its class is declared outside
  the two source files. Its operations are the fields of a record, and a handle is a
  \<open>RobotManager2D option\<close> with \<open>None\<close> for \<^verbatim>\<open>nullptr\<close>.
\<close>

record 'obs RobotManager2D =
  getProcessNoise :: Matrix3f
  getMeasNoise :: Matrix2f
  inverseMeas :: "Pose2D \<Rightarrow> 'obs \<Rightarrow> Point2D"
  measJacobian :: "Point2D \<Rightarrow> Matrix2f"
  getPerceptualRange :: real

text \<open>
  The landmark filter \<^verbatim>\<open>LMEKF2D\<close> is used through its interface only: the constructor
  from a mean, a covariance and the robot handle, and the four member functions the
  particle calls. The type \<open>'ekf\<close> of its states stays abstract and the operations are
  parameters of the model. A state is a value, so the copy constructor of \<^verbatim>\<open>LMEKF2D\<close> is
  the identity on \<open>'ekf\<close>.
\<close>

datatype KF_RET = KF_SUCCESS | KF_EMPTY_ROBOT_MANAGER | KF_MATRIX_INVERSION_ERROR

record ('ekf, 'obs) LMEKF2D =
  LMEKF2D_new :: "Point2D \<Rightarrow> Matrix2f \<Rightarrow> 'obs RobotManager2D \<Rightarrow> 'ekf"
  updateObservation :: "'obs \<Rightarrow> 'ekf \<Rightarrow> 'ekf"
  update :: "'ekf \<Rightarrow> KF_RET \<times> 'ekf"
  calcCPD :: "'ekf \<Rightarrow> real"
  getLMEst :: "'ekf \<Rightarrow> Point2D"

text \<open>The return codes of the particle. The integer values of the enumerators are
  declared outside the source files; \<open>PF_RET_int\<close> below takes them as a parameter.\<close>

datatype PF_RET = PF_SUCCESS | PF_EMPTY_ROBOT_MANAGER | PF_MATRIX_INVERSION_ERROR | PF_UPDATE_ERROR

text \<open>The particle. The bank is a vector of pairs of an owned filter and its counter.\<close>

record ('ekf, 'obs) FastSLAMParticles =
  m_importance_factor :: real
  m_robot_pose :: Pose2D
  m_lmekf_bank :: "('ekf \<times> int) list"
  m_data_label :: int
  m_robot :: "'obs RobotManager2D option"
  m_curr_max_wn :: real

section \<open>The particle (particles.cpp)\<close>

text \<open>
  The copy constructor copies five members in its initialiser list; the bank of the new
  object is default-constructed, hence empty. The loop then ranges over \<open>m_lmekf_bank\<close>,
  the bank of the object under construction, and pushes a copy of each pair it meets.
\<close>

definition FastSLAMParticles_copy ::
  "('ekf, 'obs) FastSLAMParticles \<Rightarrow> ('ekf, 'obs) FastSLAMParticles" where
  "FastSLAMParticles_copy part =
     (let this = \<lparr> m_importance_factor = m_importance_factor part,
                   m_robot_pose = m_robot_pose part,
                   m_lmekf_bank = [],
                   m_data_label = m_data_label part,
                   m_robot = m_robot part,
                   m_curr_max_wn = m_curr_max_wn part \<rparr>
      in foldl (\<lambda>self it. self\<lparr> m_lmekf_bank := m_lmekf_bank self @ [(fst it, snd it)] \<rparr>)
           this (m_lmekf_bank this))"

text \<open>The loop of \<open>matchLandmark\<close>: the bank still to visit, \<open>idx\<close>, \<open>landmark_id\<close> and
  \<open>max_wn\<close>. It returns the visited filters (each has received the observation) and the
  final \<open>landmark_id\<close> and \<open>max_wn\<close>.\<close>

fun matchLandmark_loop ::
  "('ekf, 'obs) LMEKF2D \<Rightarrow> 'obs \<Rightarrow> ('ekf \<times> int) list \<Rightarrow> int \<Rightarrow> int \<Rightarrow> real
     \<Rightarrow> ('ekf \<times> int) list \<times> int \<times> real" where
  "matchLandmark_loop K curr_obs [] idx landmark_id max_wn = ([], landmark_id, max_wn)"
| "matchLandmark_loop K curr_obs (ekf # rest) idx landmark_id max_wn =
     (let e = updateObservation K curr_obs (fst ekf);
          w_n = calcCPD K e;
          r = (if w_n > max_wn
               then matchLandmark_loop K curr_obs rest (idx + 1) idx w_n
               else matchLandmark_loop K curr_obs rest (idx + 1) landmark_id max_wn)
      in ((e, snd ekf) # fst r, snd r))"

definition matchLandmark ::
  "('ekf, 'obs) LMEKF2D \<Rightarrow> 'obs \<Rightarrow> ('ekf, 'obs) FastSLAMParticles
     \<Rightarrow> int \<times> ('ekf, 'obs) FastSLAMParticles" where
  "matchLandmark K curr_obs p =
     (let w_0 = m_importance_factor p;
          r = matchLandmark_loop K curr_obs (m_lmekf_bank p) 0
                (int (length (m_lmekf_bank p))) w_0;
          landmark_id = fst (snd r);
          max_wn = snd (snd r)
      in (landmark_id,
          p\<lparr> m_lmekf_bank := fst r, m_data_label := landmark_id, m_curr_max_wn := max_wn \<rparr>))"

text \<open>The covariance proposed for a new landmark.\<close>

definition proposed_cov :: "Matrix2f \<Rightarrow> Matrix2f \<Rightarrow> Matrix2f" where
  "proposed_cov meas_jacobian meas_noise =
     (if determinant meas_jacobian = 0 then Identity2f
      else mult2f (mult2f (inverse2f meas_jacobian) meas_noise)
             (transpose2f (inverse2f meas_jacobian)))"

text \<open>\<open>updateLMBelief\<close>. Indexing the bank with a label that is neither its size nor one
  of its indices is a read out of range.\<close>

definition updateLMBelief ::
  "('ekf, 'obs) LMEKF2D \<Rightarrow> 'obs \<Rightarrow> ('ekf, 'obs) FastSLAMParticles
     \<Rightarrow> fault + (PF_RET \<times> ('ekf, 'obs) FastSLAMParticles)" where
  "updateLMBelief K curr_obs p =
     (case m_robot p of
        None \<Rightarrow> Inr (PF_EMPTY_ROBOT_MANAGER, p)
      | Some rob \<Rightarrow>
          if m_data_label p = int (length (m_lmekf_bank p)) then
            (let proposed_mean = inverseMeas rob (m_robot_pose p) curr_obs;
                 meas_jacobian = measJacobian rob proposed_mean;
                 cov = proposed_cov meas_jacobian (getMeasNoise rob);
                 new_lmefk = LMEKF2D_new K proposed_mean cov rob
             in Inr (PF_SUCCESS, p\<lparr> m_lmekf_bank := m_lmekf_bank p @ [(new_lmefk, 1)] \<rparr>))
          else if m_data_label p < 0 \<or> int (length (m_lmekf_bank p)) < m_data_label p then
            Inl OutOfBounds
          else
            (let k = nat (m_data_label p);
                 entry = m_lmekf_bank p ! k;
                 r = update K (updateObservation K curr_obs (fst entry))
             in (case fst r of
                   KF_EMPTY_ROBOT_MANAGER \<Rightarrow>
                     Inr (PF_EMPTY_ROBOT_MANAGER,
                          p\<lparr> m_lmekf_bank := (m_lmekf_bank p)[k := (snd r, snd entry)] \<rparr>)
                 | KF_MATRIX_INVERSION_ERROR \<Rightarrow>
                     Inr (PF_MATRIX_INVERSION_ERROR,
                          p\<lparr> m_lmekf_bank := (m_lmekf_bank p)[k := (snd r, snd entry)] \<rparr>)
                 | KF_SUCCESS \<Rightarrow>
                     Inr (PF_SUCCESS,
                          p\<lparr> m_lmekf_bank := (m_lmekf_bank p)[k := (snd r, snd entry + 1)] \<rparr>))))"

text \<open>Modelled from the spec: \<open>MathUtil::findDist\<close> is defined outside the source files;
  it is the Euclidean distance from a point to the position of a pose.\<close>

definition findDist :: "Point2D \<Rightarrow> Pose2D \<Rightarrow> real" where
  "findDist pt pose = sqrt ((x pt - x pose)\<^sup>2 + (y pt - y pose)\<^sup>2)"

text \<open>The loop of \<open>cleanUpSightings\<close> (compiled under \<^verbatim>\<open>LM_CLEANUP\<close>). The counter \<open>i\<close> is
  incremented in the branch that skips an entry and nowhere else. The robot handle is
  dereferenced when an entry is not skipped.\<close>

fun cleanUpSightings_loop ::
  "('ekf, 'obs) LMEKF2D \<Rightarrow> 'obs RobotManager2D option \<Rightarrow> Pose2D \<Rightarrow> int \<Rightarrow> int
     \<Rightarrow> ('ekf \<times> int) list \<Rightarrow> fault + ('ekf \<times> int) list" where
  "cleanUpSightings_loop K rob pose data_label i [] = Inr []"
| "cleanUpSightings_loop K rob pose data_label i (it # rest) =
     (if i = data_label then
        (case cleanUpSightings_loop K rob pose data_label (i + 1) rest of
           Inl f \<Rightarrow> Inl f
         | Inr rest' \<Rightarrow> Inr (it # rest'))
      else
        (case rob of
           None \<Rightarrow> Inl NullDereference
         | Some r \<Rightarrow>
             (case cleanUpSightings_loop K rob pose data_label i rest of
                Inl f \<Rightarrow> Inl f
              | Inr rest' \<Rightarrow>
                  Inr ((if findDist (getLMEst K (fst it)) pose \<le> getPerceptualRange r
                        then (fst it, snd it - 1) else it) # rest'))))"

definition cleanUpSightings ::
  "('ekf, 'obs) LMEKF2D \<Rightarrow> ('ekf, 'obs) FastSLAMParticles
     \<Rightarrow> fault + ('ekf, 'obs) FastSLAMParticles" where
  "cleanUpSightings K p =
     (case cleanUpSightings_loop K (m_robot p) (m_robot_pose p) (m_data_label p) 0
             (m_lmekf_bank p) of
        Inl f \<Rightarrow> Inl f
      | Inr bank \<Rightarrow> Inr (p\<lparr> m_lmekf_bank := bank \<rparr>))"

definition updatePose ::
  "Pose2D \<Rightarrow> ('ekf, 'obs) FastSLAMParticles \<Rightarrow> PF_RET \<times> ('ekf, 'obs) FastSLAMParticles" where
  "updatePose new_pose p = (PF_SUCCESS, p\<lparr> m_robot_pose := new_pose \<rparr>)"

text \<open>Modelled from the spec: \<open>getParticleWeight\<close> is defined outside the source files.
  The particle reports its importance weight contribution, the winning correspondence
  of the last association, which the particle keeps in \<open>m_curr_max_wn\<close>.\<close>

definition getParticleWeight :: "('ekf, 'obs) FastSLAMParticles \<Rightarrow> real" where
  "getParticleWeight p = m_curr_max_wn p"

text \<open>\<open>updateParticle\<close> with one argument. \<open>LM_CLEANUP\<close> is the compile-time switch;
  \<open>PF_RET_int\<close> gives the integer value of each enumerator of \<open>PF_RET\<close>.\<close>

definition updateParticle ::
  "('ekf, 'obs) LMEKF2D \<Rightarrow> bool \<Rightarrow> (PF_RET \<Rightarrow> int) \<Rightarrow> 'obs \<Rightarrow> ('ekf, 'obs) FastSLAMParticles
     \<Rightarrow> fault + (real \<times> ('ekf, 'obs) FastSLAMParticles)" where
  "updateParticle K LM_CLEANUP PF_RET_int new_obs p =
     (case m_robot p of
        None \<Rightarrow> Inr (- 1, p)
      | Some rob \<Rightarrow>
          (let p1 = snd (matchLandmark K new_obs p)
           in (case updateLMBelief K new_obs p1 of
                 Inl f \<Rightarrow> Inl f
               | Inr (ret, p2) \<Rightarrow>
                   (let res_code = 0 + PF_RET_int ret
                    in if res_code \<noteq> PF_RET_int PF_SUCCESS
                       then Inr (real_of_int (PF_RET_int PF_UPDATE_ERROR), p2)
                       else if LM_CLEANUP then
                         (case cleanUpSightings K p2 of
                            Inl f \<Rightarrow> Inl f
                          | Inr p3 \<Rightarrow> Inr (getParticleWeight p3, p3))
                       else Inr (getParticleWeight p2, p2)))))"

section \<open>The particle filter (particle-filter.cpp)\<close>

text \<open>
  Random draws and the numerical routines of Eigen are parameters of the model.
  \<open>'g\<close> is the state of the random number generator, which the draws thread through.
  \<open>llt\<close> is the Cholesky solver: \<open>Some L\<close> when its \<open>info()\<close> is \<open>Success\<close>, with \<open>L\<close> its
  \<open>matrixL()\<close>. \<open>selfAdjointEigenSolver\<close> returns the eigenvectors and the eigenvalues.
\<close>

record 'g MathUtil =
  sampleNormal :: "real \<Rightarrow> real \<Rightarrow> 'g \<Rightarrow> real \<times> 'g"
  sampleUniform :: "real \<Rightarrow> real \<Rightarrow> 'g \<Rightarrow> real \<times> 'g"

record Eigen3 =
  llt :: "Matrix3f \<Rightarrow> Matrix3f option"
  selfAdjointEigenSolver :: "Matrix3f \<Rightarrow> Matrix3f \<times> Vector3f"

text \<open>Modelled from the spec: \<open>MathUtil::genCDF\<close> is defined outside the source files.
  It fills the table with the running sums of the weights and returns the total; an
  empty input gives an empty table and the total 0.\<close>

fun genCDF_from :: "real \<Rightarrow> real list \<Rightarrow> real list" where
  "genCDF_from acc [] = []"
| "genCDF_from acc (w # ws) = (acc + w) # genCDF_from (acc + w) ws"

definition genCDF :: "real list \<Rightarrow> real \<times> real list" where
  "genCDF weights =
     (let cdf_table = genCDF_from 0 weights
      in (if cdf_table = [] then 0 else last cdf_table, cdf_table))"

text \<open>The particle set is a \<^verbatim>\<open>std::unordered_map<int, std::unique_ptr<FastSLAMParticles>>\<close>
  (the type of \<open>aux_set\<close>, which is moved into it). The model is the list of its entries
  in the order in which a range-for visits them; C++ leaves that order unspecified.
  Each key occurs once. The particles are values: every particle is owned by one entry.\<close>

record ('ekf, 'obs) FastSLAMPF =
  m_robot_pf :: "'obs RobotManager2D option"
  m_num_particles :: nat
  m_particle_set :: "(int \<times> ('ekf, 'obs) FastSLAMParticles) list"
  m_particle_weights :: "real list"

text \<open>\<open>cwiseSqrt\<close> on the eigenvalues: the square root of a negative float is not a
  number.\<close>

definition cwiseSqrt :: "Vector3f \<Rightarrow> fault + Vector3f" where
  "cwiseSqrt v =
     (case v of (a, b, c) \<Rightarrow>
        if a < 0 \<or> b < 0 \<or> c < 0 then Inl NotANumber else Inr (sqrt a, sqrt b, sqrt c))"

text \<open>The product of a matrix with \<open>asDiagonal()\<close> of a vector scales the columns.\<close>

fun mult_asDiagonal :: "Matrix3f \<Rightarrow> Vector3f \<Rightarrow> Matrix3f" where
  "mult_asDiagonal (Matrix3f (a11, a12, a13) (a21, a22, a23) (a31, a32, a33)) (d1, d2, d3) =
     Matrix3f (a11 * d1, a12 * d2, a13 * d3)
              (a21 * d1, a22 * d2, a23 * d3)
              (a31 * d1, a32 * d2, a33 * d3)"

fun mult3f_vec :: "Matrix3f \<Rightarrow> Vector3f \<Rightarrow> Vector3f" where
  "mult3f_vec (Matrix3f (a11, a12, a13) (a21, a22, a23) (a31, a32, a33)) (z1, z2, z3) =
     (a11 * z1 + a12 * z2 + a13 * z3,
      a21 * z1 + a22 * z2 + a23 * z3,
      a31 * z1 + a32 * z2 + a33 * z3)"

text \<open>Modelled from the spec: \<open>Pose2D::operator+=\<close> on a three-vector is defined outside
  the source files; it perturbs the pose componentwise.\<close>

fun Pose2D_add :: "Pose2D \<Rightarrow> Vector3f \<Rightarrow> Pose2D" where
  "Pose2D_add pose (d1, d2, d3) =
     pose\<lparr> x := x pose + d1, y := y pose + d2, theta_rad := theta_rad pose + d3 \<rparr>"

definition samplePose ::
  "Eigen3 \<Rightarrow> 'g MathUtil \<Rightarrow> 'obs RobotManager2D option \<Rightarrow> Pose2D \<Rightarrow> 'g
     \<Rightarrow> fault + (Pose2D \<times> 'g)" where
  "samplePose E M robot a_pose_mean g =
     (case robot of
        None \<Rightarrow> Inl NullDereference
      | Some rob \<Rightarrow>
          (case (case llt E (getProcessNoise rob) of
                   Some L \<Rightarrow> Inr L
                 | None \<Rightarrow>
                     (let eigenSolver = selfAdjointEigenSolver E (getProcessNoise rob)
                      in (case cwiseSqrt (snd eigenSolver) of
                            Inl f \<Rightarrow> Inl f
                          | Inr roots \<Rightarrow> Inr (mult_asDiagonal (fst eigenSolver) roots)))) of
             Inl f \<Rightarrow> Inl f
           | Inr l_cholesky \<Rightarrow>
               (let s1 = sampleNormal M 0 1 g;
                    s2 = sampleNormal M 0 1 (snd s1);
                    s3 = sampleNormal M 0 1 (snd s2);
                    z = (fst s1, fst s2, fst s3)
                in Inr (Pose2D_add a_pose_mean (mult3f_vec l_cholesky z), snd s3))))"

text \<open>The loop of \<open>drawWithReplacement\<close>. \<open>middle\<close> is declared without a value, so it
  is \<open>None\<close> until the body has run once. The division is the truncating one of C++. The
  indices are far from the bounds of \<^verbatim>\<open>int\<close> for every table that fits in memory.\<close>

partial_function (option) drawWithReplacement_loop ::
  "real list \<Rightarrow> real \<Rightarrow> int \<Rightarrow> int \<Rightarrow> int option \<Rightarrow> (fault + int) option" where
  "drawWithReplacement_loop cdf_vec sample start endi middle =
     (if start \<noteq> endi then
        (let m = (start + endi) sdiv 2
         in if m < 0 \<or> int (length cdf_vec) \<le> m then Some (Inl OutOfBounds)
            else if sample \<ge> cdf_vec ! nat m
            then drawWithReplacement_loop cdf_vec sample (m + 1) endi (Some m)
            else drawWithReplacement_loop cdf_vec sample start m (Some m))
      else (case middle of
              None \<Rightarrow> Some (Inl UninitialisedRead)
            | Some m \<Rightarrow> Some (Inr m)))"

definition drawWithReplacement :: "real list \<Rightarrow> real \<Rightarrow> fault + int" where
  "drawWithReplacement cdf_vec sample =
     (let start = 0;
          endi = int (length cdf_vec) - 1
      in if sample < 0 then Inr (- 1)
         else if endi < 0 then Inl OutOfBounds
         else if sample > cdf_vec ! nat endi then Inr (- 1)
         else (case drawWithReplacement_loop cdf_vec sample start endi None of
                 None \<Rightarrow> Inl NonTermination
               | Some r \<Rightarrow> r))"

text \<open>\<open>insert\<close> of the unordered map keeps an entry whose key is already there. The
  place of a new entry in the visiting order is unspecified; the model puts it last.\<close>

definition umap_insert :: "int \<times> 'p \<Rightarrow> (int \<times> 'p) list \<Rightarrow> (int \<times> 'p) list" where
  "umap_insert kv m = (if fst kv \<in> fst ` set m then m else m @ [kv])"

text \<open>The loop of \<open>reSampleParticles\<close> over the entries still to visit. \<open>operator[]\<close> on a
  key that is absent creates an entry with a null pointer, which is then dereferenced.\<close>

fun reSampleParticles_loop ::
  "'g MathUtil \<Rightarrow> (int \<times> ('ekf, 'obs) FastSLAMParticles) list \<Rightarrow> real list \<Rightarrow> real
     \<Rightarrow> (int \<times> ('ekf, 'obs) FastSLAMParticles) list
     \<Rightarrow> (int \<times> ('ekf, 'obs) FastSLAMParticles) list \<Rightarrow> 'g
     \<Rightarrow> fault + ((int \<times> ('ekf, 'obs) FastSLAMParticles) list \<times> 'g)" where
  "reSampleParticles_loop M pset cdf_table total_weight [] aux_set g = Inr (aux_set, g)"
| "reSampleParticles_loop M pset cdf_table total_weight (it # rest) aux_set g =
     (let s = sampleUniform M 0 total_weight g;
          sampled_weight = fst s
      in (case drawWithReplacement cdf_table sampled_weight of
            Inl f \<Rightarrow> Inl f
          | Inr drawn \<Rightarrow>
              (let sampled_idx = (if drawn \<ge> 0 then drawn else fst it)
               in (case map_of pset sampled_idx of
                     None \<Rightarrow> Inl NullDereference
                   | Some q \<Rightarrow>
                       reSampleParticles_loop M pset cdf_table total_weight rest
                         (umap_insert (fst it, FastSLAMParticles_copy q) aux_set) (snd s)))))"

definition reSampleParticles ::
  "'g MathUtil \<Rightarrow> ('ekf, 'obs) FastSLAMPF \<Rightarrow> 'g \<Rightarrow> fault + (('ekf, 'obs) FastSLAMPF \<times> 'g)" where
  "reSampleParticles M F g =
     (let c = genCDF (m_particle_weights F);
          total_weight = fst c;
          cdf_table = snd c
      in (case reSampleParticles_loop M (m_particle_set F) cdf_table total_weight
                 (m_particle_set F) [] g of
            Inl f \<Rightarrow> Inl f
          | Inr (aux_set, g') \<Rightarrow> Inr (F\<lparr> m_particle_set := aux_set \<rparr>, g')))"

text \<open>Modelled from the spec: \<open>updateParticle\<close> with an observation and a pose is defined
  outside the source files. It updates the pose of the particle and then runs the update
  on the observation.\<close>

definition updateParticle_pose ::
  "('ekf, 'obs) LMEKF2D \<Rightarrow> bool \<Rightarrow> (PF_RET \<Rightarrow> int) \<Rightarrow> 'obs \<Rightarrow> Pose2D
     \<Rightarrow> ('ekf, 'obs) FastSLAMParticles \<Rightarrow> fault + (real \<times> ('ekf, 'obs) FastSLAMParticles)" where
  "updateParticle_pose K LM_CLEANUP PF_RET_int new_obs new_pose p =
     updateParticle K LM_CLEANUP PF_RET_int new_obs (snd (updatePose new_pose p))"

text \<open>The inner loop of \<open>updateFilter\<close>: the entries still to visit, \<open>idx\<close>, the weights
  and the generator. It returns the visited entries with their updated particles.\<close>

fun updateFilter_particles ::
  "('ekf, 'obs) LMEKF2D \<Rightarrow> bool \<Rightarrow> (PF_RET \<Rightarrow> int) \<Rightarrow> Eigen3 \<Rightarrow> 'g MathUtil
     \<Rightarrow> 'obs RobotManager2D option \<Rightarrow> Pose2D \<Rightarrow> 'obs
     \<Rightarrow> (int \<times> ('ekf, 'obs) FastSLAMParticles) list \<Rightarrow> int \<Rightarrow> real list \<Rightarrow> 'g
     \<Rightarrow> fault + ((int \<times> ('ekf, 'obs) FastSLAMParticles) list \<times> real list \<times> 'g)" where
  "updateFilter_particles K c pfi E M robot a_robot_pose_mean front [] idx weights g =
     Inr ([], weights, g)"
| "updateFilter_particles K c pfi E M robot a_robot_pose_mean front (it # rest) idx weights g =
     (case samplePose E M robot a_robot_pose_mean g of
        Inl f \<Rightarrow> Inl f
      | Inr (rob_pose_sampled, g1) \<Rightarrow>
          (case updateParticle_pose K c pfi front rob_pose_sampled (snd it) of
             Inl f \<Rightarrow> Inl f
           | Inr (w, p') \<Rightarrow>
               if idx < 0 \<or> int (length weights) \<le> idx then Inl OutOfBounds
               else
                 (case updateFilter_particles K c pfi E M robot a_robot_pose_mean front rest
                         (idx + 1) (weights[nat idx := weights ! nat idx + w]) g1 of
                    Inl f \<Rightarrow> Inl f
                  | Inr (rest', weights', g') \<Rightarrow> Inr ((fst it, p') # rest', weights', g'))))"

text \<open>The outer loop drains the queue from its front; it returns the filter, the
  generator and the queue that is left.\<close>

fun updateFilter_loop ::
  "('ekf, 'obs) LMEKF2D \<Rightarrow> bool \<Rightarrow> (PF_RET \<Rightarrow> int) \<Rightarrow> Eigen3 \<Rightarrow> 'g MathUtil
     \<Rightarrow> Pose2D \<Rightarrow> 'obs list \<Rightarrow> ('ekf, 'obs) FastSLAMPF \<Rightarrow> 'g
     \<Rightarrow> fault + (('ekf, 'obs) FastSLAMPF \<times> 'g \<times> 'obs list)" where
  "updateFilter_loop K c pfi E M a_robot_pose_mean [] F g = Inr (F, g, [])"
| "updateFilter_loop K c pfi E M a_robot_pose_mean (front # a_sighting_queue) F g =
     (case updateFilter_particles K c pfi E M (m_robot_pf F) a_robot_pose_mean front
             (m_particle_set F) 0 (m_particle_weights F) g of
        Inl f \<Rightarrow> Inl f
      | Inr (pset, weights, g1) \<Rightarrow>
          updateFilter_loop K c pfi E M a_robot_pose_mean a_sighting_queue
            (F\<lparr> m_particle_set := pset, m_particle_weights := weights \<rparr>) g1)"

definition updateFilter ::
  "('ekf, 'obs) LMEKF2D \<Rightarrow> bool \<Rightarrow> (PF_RET \<Rightarrow> int) \<Rightarrow> Eigen3 \<Rightarrow> 'g MathUtil
     \<Rightarrow> Pose2D \<Rightarrow> 'obs list \<Rightarrow> ('ekf, 'obs) FastSLAMPF \<Rightarrow> 'g
     \<Rightarrow> fault + (('ekf, 'obs) FastSLAMPF \<times> 'g \<times> 'obs list)" where
  "updateFilter K c pfi E M a_robot_pose_mean a_sighting_queue F g =
     (case updateFilter_loop K c pfi E M a_robot_pose_mean a_sighting_queue F g of
        Inl f \<Rightarrow> Inl f
      | Inr (F1, g1, queue) \<Rightarrow>
          (case reSampleParticles M F1 g1 of
             Inl f \<Rightarrow> Inl f
           | Inr (F2, g2) \<Rightarrow> Inr (F2, g2, queue)))"

declare drawWithReplacement_loop.simps [code]

section \<open>Notions used in the statements\<close>

text \<open>The correspondence probability densities \<open>w_k\<close> that \<open>matchLandmark\<close> reads: filter
  \<open>k\<close> of the bank is fed the observation and asked for its density.\<close>

definition cpd_list :: "('ekf, 'obs) LMEKF2D \<Rightarrow> 'obs \<Rightarrow> ('ekf \<times> int) list \<Rightarrow> real list" where
  "cpd_list K z bank = map (\<lambda>it. calcCPD K (updateObservation K z (fst it))) bank"

text \<open>What \<open>cleanUpSightings\<close> does to an entry it does not skip.\<close>

definition cleanUp_entry ::
  "('ekf, 'obs) LMEKF2D \<Rightarrow> 'obs RobotManager2D \<Rightarrow> Pose2D \<Rightarrow> 'ekf \<times> int \<Rightarrow> 'ekf \<times> int" where
  "cleanUp_entry K r pose it =
     (if findDist (getLMEst K (fst it)) pose \<le> getPerceptualRange r
      then (fst it, snd it - 1) else it)"

section \<open>A concrete instance\<close>

text \<open>
  The collaborators are parameters, so a concrete run needs an instance of each. The
  instance is one-dimensional: an observation is the abscissa of the sighted landmark
  relative to the robot, a landmark filter is the pair of its mean and the observation it
  buffers, its density is highest when the two agree, and its update always succeeds.
  The Eigen instance is exact on diagonal matrices whose diagonal is ascending. The
  generator is the list of the standard draws still to come.
\<close>

definition toyK :: "(real \<times> real, real) LMEKF2D" where
  "toyK = \<lparr> LMEKF2D_new = (\<lambda>mean cov rob. (x mean, 0)),
            updateObservation = (\<lambda>z e. (fst e, z)),
            update = (\<lambda>e. (KF_SUCCESS, e)),
            calcCPD = (\<lambda>e. 1 / (1 + (snd e - fst e)\<^sup>2)),
            getLMEst = (\<lambda>e. \<lparr> x = fst e, y = 0 \<rparr>) \<rparr>"

definition toyRobot :: "Matrix3f \<Rightarrow> real RobotManager2D" where
  "toyRobot Q = \<lparr> getProcessNoise = Q,
                  getMeasNoise = Identity2f,
                  inverseMeas = (\<lambda>pose z. \<lparr> x = x pose + z, y = y pose \<rparr>),
                  measJacobian = (\<lambda>pt. Identity2f),
                  getPerceptualRange = 10 \<rparr>"

definition Zero3f :: Matrix3f where
  "Zero3f = Matrix3f (0, 0, 0) (0, 0, 0) (0, 0, 0)"

definition toyEigen :: Eigen3 where
  "toyEigen =
     \<lparr> llt = (\<lambda>Q. case Q of Matrix3f (a, _, _) (_, b, _) (_, _, c) \<Rightarrow>
                if 0 < a \<and> 0 < b \<and> 0 < c
                then Some (Matrix3f (sqrt a, 0, 0) (0, sqrt b, 0) (0, 0, sqrt c))
                else None),
       selfAdjointEigenSolver = (\<lambda>Q. case Q of Matrix3f (a, _, _) (_, b, _) (_, _, c) \<Rightarrow>
                (Matrix3f (1, 0, 0) (0, 1, 0) (0, 0, 1), (a, b, c))) \<rparr>"

definition toyRng :: "real list MathUtil" where
  "toyRng =
     \<lparr> sampleNormal = (\<lambda>mu sigma g. case g of [] \<Rightarrow> (mu, []) | u # us \<Rightarrow> (mu + sigma * u, us)),
       sampleUniform = (\<lambda>a b g. case g of [] \<Rightarrow> (a, []) | u # us \<Rightarrow> (a + (b - a) * u, us)) \<rparr>"

definition toyCodes :: "PF_RET \<Rightarrow> int" where
  "toyCodes r = (case r of PF_SUCCESS \<Rightarrow> 0 | PF_EMPTY_ROBOT_MANAGER \<Rightarrow> 1
                  | PF_MATRIX_INVERSION_ERROR \<Rightarrow> 2 | PF_UPDATE_ERROR \<Rightarrow> 3)"

definition pose0 :: Pose2D where
  "pose0 = \<lparr> x = 0, y = 0, theta_rad = 0 \<rparr>"

text \<open>A particle at the origin with importance factor \<open>1/2\<close>, whose bank holds a filter
  for each given pair of a landmark abscissa and an existence counter.\<close>

definition toyParticle ::
  "real RobotManager2D option \<Rightarrow> (real \<times> int) list \<Rightarrow> (real \<times> real, real) FastSLAMParticles" where
  "toyParticle rob lms =
     \<lparr> m_importance_factor = 1 / 2, m_robot_pose = pose0,
       m_lmekf_bank = map (\<lambda>lm. ((fst lm, 0), snd lm)) lms, m_data_label = 0,
       m_robot = rob, m_curr_max_wn = 1 / 2 \<rparr>"

text \<open>A filter from its robot, the entries of its particle set in visiting order and its
  weights. \<open>One3f\<close> is the identity as process noise.\<close>

definition toyFilter ::
  "real RobotManager2D \<Rightarrow> (int \<times> (real \<times> real, real) FastSLAMParticles) list \<Rightarrow> real list
     \<Rightarrow> (real \<times> real, real) FastSLAMPF" where
  "toyFilter rob pset weights =
     \<lparr> m_robot_pf = Some rob, m_num_particles = length pset,
       m_particle_set = pset, m_particle_weights = weights \<rparr>"

definition One3f :: Matrix3f where
  "One3f = Matrix3f (1, 0, 0) (0, 1, 0) (0, 0, 1)"

section \<open>The copy constructor\<close>

lemma FastSLAMParticles_copy_eq:
  "FastSLAMParticles_copy part = part\<lparr> m_lmekf_bank := [] \<rparr>"
  by (simp add: FastSLAMParticles_copy_def)

text \<open>
  C1. The claim asks that a copy-constructed particle carries every (EKF, counter)
  pair of its source. The constructor ranges over the bank of the object it is building,
  which is empty, instead of the bank of \<open>part\<close>: the copy equals the source in its five
  other members and its bank is empty, whatever the bank of the source holds.
\<close>

theorem FastSLAMParticles_copy_bank_empty:
  "m_lmekf_bank (FastSLAMParticles_copy part) = []
   \<and> m_importance_factor (FastSLAMParticles_copy part) = m_importance_factor part
   \<and> m_robot_pose (FastSLAMParticles_copy part) = m_robot_pose part
   \<and> m_data_label (FastSLAMParticles_copy part) = m_data_label part
   \<and> m_robot (FastSLAMParticles_copy part) = m_robot part
   \<and> m_curr_max_wn (FastSLAMParticles_copy part) = m_curr_max_wn part"
  by (simp add: FastSLAMParticles_copy_def)

section \<open>Data association\<close>

lemma cpd_list_simps [simp]:
  "cpd_list K z [] = []"
  "cpd_list K z (it # rest) = calcCPD K (updateObservation K z (fst it)) # cpd_list K z rest"
  "length (cpd_list K z bank) = length bank"
  by (simp_all add: cpd_list_def)

lemma matchLandmark_loop_bank:
  "fst (matchLandmark_loop K z bank idx lid mx) =
     map (\<lambda>it. (updateObservation K z (fst it), snd it)) bank"
  by (induction bank arbitrary: idx lid mx) (simp_all add: Let_def)

lemma matchLandmark_loop_max:
  "snd (snd (matchLandmark_loop K z bank idx lid mx)) = Max (insert mx (set (cpd_list K z bank)))"
proof (induction bank arbitrary: idx lid mx)
  case Nil
  show ?case by simp
next
  case (Cons it rest)
  let ?w = "calcCPD K (updateObservation K z (fst it))"
  let ?S = "set (cpd_list K z rest)"
  have fin: "finite ?S" by simp
  show ?case
  proof (cases "?w > mx")
    case True
    have "Max (insert mx (insert ?w ?S)) = max mx (Max (insert ?w ?S))"
      using fin by simp
    also have "\<dots> = Max (insert ?w ?S)"
    proof -
      have "?w \<le> Max (insert ?w ?S)" using fin by (intro Max_ge) simp_all
      with True have "mx \<le> Max (insert ?w ?S)" by linarith
      then show ?thesis by (rule max_absorb2)
    qed
    finally show ?thesis using True Cons.IH [of "idx + 1" idx ?w] by (simp add: Let_def)
  next
    case False
    have "Max (insert mx (insert ?w ?S)) = Max (insert ?w (insert mx ?S))"
      by (simp add: insert_commute)
    also have "\<dots> = max ?w (Max (insert mx ?S))" using fin by simp
    also have "\<dots> = Max (insert mx ?S)"
    proof -
      have "mx \<le> Max (insert mx ?S)" using fin by (intro Max_ge) simp_all
      with False have "?w \<le> Max (insert mx ?S)" by linarith
      then show ?thesis by (rule max_absorb2)
    qed
    finally show ?thesis using False Cons.IH [of "idx + 1" lid mx] by (simp add: Let_def)
  qed
qed

lemma matchLandmark_loop_keep:
  "\<forall>w \<in> set (cpd_list K z bank). w \<le> mx \<Longrightarrow>
     fst (snd (matchLandmark_loop K z bank idx lid mx)) = lid"
  by (induction bank arbitrary: idx lid mx) (auto simp add: Let_def)

lemma matchLandmark_loop_pick:
  "\<exists>w \<in> set (cpd_list K z bank). mx < w \<Longrightarrow>
     idx \<le> fst (snd (matchLandmark_loop K z bank idx lid mx))
   \<and> fst (snd (matchLandmark_loop K z bank idx lid mx)) < idx + int (length bank)
   \<and> cpd_list K z bank ! nat (fst (snd (matchLandmark_loop K z bank idx lid mx)) - idx)
       = Max (set (cpd_list K z bank))
   \<and> (\<forall>k < nat (fst (snd (matchLandmark_loop K z bank idx lid mx)) - idx).
         cpd_list K z bank ! k
           < cpd_list K z bank ! nat (fst (snd (matchLandmark_loop K z bank idx lid mx)) - idx))"
proof (induction bank arbitrary: idx lid mx)
  case Nil
  then show ?case by simp
next
  case (Cons it rest)
  let ?w = "calcCPD K (updateObservation K z (fst it))"
  let ?ws = "cpd_list K z rest"
  have fin: "finite (set ?ws)" by simp
  show ?case
  proof (cases "?w > mx")
    case True
    note w = True
    let ?r = "fst (snd (matchLandmark_loop K z rest (idx + 1) idx ?w))"
    have r: "fst (snd (matchLandmark_loop K z (it # rest) idx lid mx)) = ?r"
      using w by (simp add: Let_def)
    show ?thesis
    proof (cases "\<exists>v \<in> set ?ws. ?w < v")
      case True
      from Cons.IH [OF True, of "idx + 1" idx]
      have ih: "idx + 1 \<le> ?r" "?r < idx + 1 + int (length rest)"
        "?ws ! nat (?r - (idx + 1)) = Max (set ?ws)"
        "\<forall>k < nat (?r - (idx + 1)). ?ws ! k < ?ws ! nat (?r - (idx + 1))"
        by blast+
      have ne: "set ?ws \<noteq> {}" using True by auto
      have n: "nat (?r - idx) = Suc (nat (?r - (idx + 1)))" using ih(1) by simp
      have big: "?w < Max (set ?ws)" using True fin ne by (simp add: Max_gr_iff)
      have mx: "Max (set (?w # ?ws)) = Max (set ?ws)" using big fin ne by simp
      have low: "\<forall>k < Suc (nat (?r - (idx + 1))). (?w # ?ws) ! k < Max (set ?ws)"
        using ih(3,4) big by (auto simp add: less_Suc_eq_0_disj)
      show ?thesis
        unfolding r using ih(1,2) n ih(3) mx low by simp
    next
      case False
      then have le: "\<forall>v \<in> set ?ws. v \<le> ?w" by auto
      have "?r = idx" using matchLandmark_loop_keep [OF le] .
      moreover have "Max (set (?w # ?ws)) = ?w"
        using le fin by (auto intro: Max_eqI)
      ultimately show ?thesis unfolding r by simp
    qed
  next
    case False
    note w = False
    let ?r = "fst (snd (matchLandmark_loop K z rest (idx + 1) lid mx))"
    have r: "fst (snd (matchLandmark_loop K z (it # rest) idx lid mx)) = ?r"
      using w by (simp add: Let_def)
    from Cons.prems w have ex: "\<exists>v \<in> set ?ws. mx < v" by auto
    from Cons.IH [OF ex, of "idx + 1" lid]
    have ih: "idx + 1 \<le> ?r" "?r < idx + 1 + int (length rest)"
      "?ws ! nat (?r - (idx + 1)) = Max (set ?ws)"
      "\<forall>k < nat (?r - (idx + 1)). ?ws ! k < ?ws ! nat (?r - (idx + 1))"
      by blast+
    have ne: "set ?ws \<noteq> {}" using ex by auto
    have n: "nat (?r - idx) = Suc (nat (?r - (idx + 1)))" using ih(1) by simp
    have "mx < Max (set ?ws)" using ex fin ne by (simp add: Max_gr_iff)
    with w have big: "?w < Max (set ?ws)" by simp
    have mx: "Max (set (?w # ?ws)) = Max (set ?ws)" using big fin ne by simp
    have low: "\<forall>k < Suc (nat (?r - (idx + 1))). (?w # ?ws) ! k < Max (set ?ws)"
      using ih(3,4) big by (auto simp add: less_Suc_eq_0_disj)
    show ?thesis
      unfolding r using ih(1,2) n ih(3) mx low by simp
  qed
qed

lemma matchLandmark_fields:
  "fst (matchLandmark K z p) = m_data_label (snd (matchLandmark K z p))"
  "m_lmekf_bank (snd (matchLandmark K z p)) =
     map (\<lambda>it. (updateObservation K z (fst it), snd it)) (m_lmekf_bank p)"
  "m_curr_max_wn (snd (matchLandmark K z p)) =
     Max (insert (m_importance_factor p) (set (cpd_list K z (m_lmekf_bank p))))"
  "m_robot (snd (matchLandmark K z p)) = m_robot p"
  "m_importance_factor (snd (matchLandmark K z p)) = m_importance_factor p"
  "m_robot_pose (snd (matchLandmark K z p)) = m_robot_pose p"
  by (simp_all add: matchLandmark_def Let_def matchLandmark_loop_bank matchLandmark_loop_max)

lemma matchLandmark_new:
  "\<forall>w \<in> set (cpd_list K z (m_lmekf_bank p)). w \<le> m_importance_factor p \<Longrightarrow>
     fst (matchLandmark K z p) = int (length (m_lmekf_bank p))"
  by (simp add: matchLandmark_def Let_def matchLandmark_loop_keep)

lemma matchLandmark_existing:
  assumes "\<exists>w \<in> set (cpd_list K z (m_lmekf_bank p)). m_importance_factor p < w"
  shows "0 \<le> fst (matchLandmark K z p)
       \<and> fst (matchLandmark K z p) < int (length (m_lmekf_bank p))
       \<and> cpd_list K z (m_lmekf_bank p) ! nat (fst (matchLandmark K z p))
           = Max (set (cpd_list K z (m_lmekf_bank p)))
       \<and> (\<forall>k < nat (fst (matchLandmark K z p)).
           cpd_list K z (m_lmekf_bank p) ! k
             < cpd_list K z (m_lmekf_bank p) ! nat (fst (matchLandmark K z p)))"
proof -
  have eq: "fst (matchLandmark K z p) =
      fst (snd (matchLandmark_loop K z (m_lmekf_bank p) 0 (int (length (m_lmekf_bank p)))
        (m_importance_factor p)))"
    by (simp add: matchLandmark_def Let_def)
  from matchLandmark_loop_pick [OF assms, of 0 "int (length (m_lmekf_bank p))"]
  show ?thesis unfolding eq by auto
qed

lemma matchLandmark_range:
  "0 \<le> fst (matchLandmark K z p)" "fst (matchLandmark K z p) \<le> int (length (m_lmekf_bank p))"
proof -
  have "0 \<le> fst (matchLandmark K z p) \<and> fst (matchLandmark K z p) \<le> int (length (m_lmekf_bank p))"
  proof (cases "\<exists>w \<in> set (cpd_list K z (m_lmekf_bank p)). m_importance_factor p < w")
    case True
    from matchLandmark_existing [OF True] show ?thesis by simp
  next
    case False
    then have "\<forall>w \<in> set (cpd_list K z (m_lmekf_bank p)). w \<le> m_importance_factor p"
      by (auto simp add: not_less)
    from matchLandmark_new [OF this] show ?thesis by simp
  qed
  then show "0 \<le> fst (matchLandmark K z p)"
    "fst (matchLandmark K z p) \<le> int (length (m_lmekf_bank p))" by simp_all
qed

text \<open>
  C4. Let \<open>ws\<close> be the densities the filters of the bank report for \<open>z\<close> and \<open>w0\<close> the
  importance factor. If no density exceeds \<open>w0\<close>, \<open>matchLandmark\<close> returns the size of the
  bank. Otherwise it returns an index whose density is the maximum of \<open>ws\<close>, and every
  lower index has a strictly smaller density. The data label is the returned value, it
  lies between 0 and the size of the bank, and the recorded maximum is the maximum of
  \<open>w0\<close> and the densities, hence at least \<open>w0\<close>.
\<close>

theorem matchLandmark_association:
  assumes "matchLandmark K z p = (r, p')"
    and "ws = cpd_list K z (m_lmekf_bank p)"
    and "w0 = m_importance_factor p"
  shows "(\<not> (\<exists>k < length ws. w0 < ws ! k) \<longrightarrow> r = int (length (m_lmekf_bank p)))
       \<and> ((\<exists>k < length ws. w0 < ws ! k) \<longrightarrow>
            0 \<le> r \<and> r < int (length (m_lmekf_bank p)) \<and> ws ! nat r = Max (set ws)
            \<and> (\<forall>k < nat r. ws ! k < ws ! nat r))
       \<and> m_data_label p' = r
       \<and> 0 \<le> r \<and> r \<le> int (length (m_lmekf_bank p'))
       \<and> length (m_lmekf_bank p') = length (m_lmekf_bank p)
       \<and> m_curr_max_wn p' = Max (insert w0 (set ws))
       \<and> w0 \<le> m_curr_max_wn p'"
proof -
  have r: "r = fst (matchLandmark K z p)" and p': "p' = snd (matchLandmark K z p)"
    using assms(1) by simp_all
  have ex_iff: "(\<exists>k < length ws. w0 < ws ! k) \<longleftrightarrow> (\<exists>w \<in> set ws. w0 < w)"
    by (metis in_set_conv_nth)
  have a: "\<not> (\<exists>k < length ws. w0 < ws ! k) \<longrightarrow> r = int (length (m_lmekf_bank p))"
  proof
    assume "\<not> (\<exists>k < length ws. w0 < ws ! k)"
    then have "\<forall>w \<in> set ws. w \<le> w0" unfolding ex_iff by (auto simp add: not_less)
    then show "r = int (length (m_lmekf_bank p))"
      unfolding r assms(2,3) by (rule matchLandmark_new)
  qed
  have b: "(\<exists>k < length ws. w0 < ws ! k) \<longrightarrow>
            0 \<le> r \<and> r < int (length (m_lmekf_bank p)) \<and> ws ! nat r = Max (set ws)
            \<and> (\<forall>k < nat r. ws ! k < ws ! nat r)"
  proof
    assume "\<exists>k < length ws. w0 < ws ! k"
    then have "\<exists>w \<in> set ws. w0 < w" using ex_iff by blast
    then have "\<exists>w \<in> set (cpd_list K z (m_lmekf_bank p)). m_importance_factor p < w"
      unfolding assms(2,3) .
    from matchLandmark_existing [OF this]
    show "0 \<le> r \<and> r < int (length (m_lmekf_bank p)) \<and> ws ! nat r = Max (set ws)
            \<and> (\<forall>k < nat r. ws ! k < ws ! nat r)"
      unfolding r assms(2,3) by blast
  qed
  have c: "m_data_label p' = r" unfolding r p' by (simp add: matchLandmark_fields(1))
  have d: "0 \<le> r" "r \<le> int (length (m_lmekf_bank p'))"
    unfolding r p' using matchLandmark_range [of K z p]
    by (simp_all add: matchLandmark_fields(2))
  have e: "length (m_lmekf_bank p') = length (m_lmekf_bank p)"
    unfolding p' by (simp add: matchLandmark_fields(2))
  have f: "m_curr_max_wn p' = Max (insert w0 (set ws))"
    unfolding p' assms(2,3) by (rule matchLandmark_fields(3))
  have g: "w0 \<le> m_curr_max_wn p'"
    unfolding f by (intro Max_ge) (simp_all add: assms(2))
  from a b c d e f g show ?thesis by blast
qed

theorem matchLandmark_association_witness:
  "[1 / 10, 1, 1] = cpd_list toyK 2 (m_lmekf_bank (toyParticle None [(5, 1), (2, 1), (2, 3)]))
   \<and> matchLandmark toyK 2 (toyParticle None [(5, 1), (2, 1), (2, 3)])
       = (1, snd (matchLandmark toyK 2 (toyParticle None [(5, 1), (2, 1), (2, 3)])))
   \<and> [1 / 10, 1, 1] ! nat 1 = Max (set [1 / 10, 1, 1 :: real])
   \<and> m_data_label (snd (matchLandmark toyK 2 (toyParticle None [(5, 1), (2, 1), (2, 3)]))) = 1
   \<and> m_curr_max_wn (snd (matchLandmark toyK 2 (toyParticle None [(5, 1), (2, 1), (2, 3)])))
       = Max (insert (1 / 2) (set [1 / 10, 1, 1]))
   \<and> [1 / 10] = cpd_list toyK 2 (m_lmekf_bank (toyParticle None [(5, 1)]))
   \<and> fst (matchLandmark toyK 2 (toyParticle None [(5, 1)]))
       = int (length (m_lmekf_bank (toyParticle None [(5, 1)])))"
proof -
  let ?P = "toyParticle None [(5, 1), (2, 1), (2, 3)]"
  let ?Q = "toyParticle None [(5, 1)]"
  have ws: "[1 / 10, 1, 1] = cpd_list toyK 2 (m_lmekf_bank ?P)"
    by (simp add: toyParticle_def toyK_def cpd_list_def)
  have m: "matchLandmark toyK 2 ?P = (1, snd (matchLandmark toyK 2 ?P))"
    by (simp add: prod_eq_iff matchLandmark_def toyParticle_def toyK_def Let_def)
  have w0: "1 / 2 = m_importance_factor ?P"
    by (simp add: toyParticle_def)
  note c = matchLandmark_association [OF m ws w0]
  have ex: "\<exists>k < length [1 / 10, 1, 1 :: real]. (1 / 2 :: real) < [1 / 10, 1, 1] ! k"
    by (rule exI [of _ 1]) simp
  from c ex have d: "[1 / 10, 1, 1] ! nat 1 = Max (set [1 / 10, 1, 1 :: real])" by blast
  from c have e: "m_data_label (snd (matchLandmark toyK 2 ?P)) = 1" by blast
  from c have f: "m_curr_max_wn (snd (matchLandmark toyK 2 ?P))
       = Max (insert (1 / 2) (set [1 / 10, 1, 1]))" by blast
  have ws': "[1 / 10] = cpd_list toyK 2 (m_lmekf_bank ?Q)"
    by (simp add: toyParticle_def toyK_def cpd_list_def)
  have m': "matchLandmark toyK 2 ?Q = (fst (matchLandmark toyK 2 ?Q), snd (matchLandmark toyK 2 ?Q))"
    by simp
  have w0': "1 / 2 = m_importance_factor ?Q"
    by (simp add: toyParticle_def)
  have nex: "\<not> (\<exists>k < length [1 / 10 :: real]. (1 / 2 :: real) < [1 / 10] ! k)"
    by simp
  from matchLandmark_association [OF m' ws' w0', THEN conjunct1, THEN mp, OF nex]
  have g: "fst (matchLandmark toyK 2 ?Q) = int (length (m_lmekf_bank ?Q))" .
  show ?thesis by (intro conjI ws m d e f ws' g)
qed

section \<open>The particle without a robot manager\<close>

text \<open>
  C10. With a null robot-manager handle \<open>updateParticle\<close> returns \<open>-1.0\<close> at once: the
  particle it leaves is the particle it was given, so the bank with its filters and
  counters, the data label and the recorded maximum are unchanged.
\<close>

theorem updateParticle_null_robot:
  "m_robot p = None \<Longrightarrow> updateParticle K c pfi z p = Inr (- 1, p)"
  by (simp add: updateParticle_def)

theorem updateParticle_null_robot_witness:
  "m_robot (toyParticle None [(2, 1)]) = None
   \<and> updateParticle toyK True toyCodes 2 (toyParticle None [(2, 1)])
       = Inr (- 1, toyParticle None [(2, 1)])"
proof -
  have h: "m_robot (toyParticle None [(2, 1)]) = None" by (simp add: toyParticle_def)
  show ?thesis by (intro conjI h updateParticle_null_robot [OF h])
qed

section \<open>Belief update\<close>

lemma inverse2f_left:
  assumes "determinant H \<noteq> 0"
  shows "mult2f (inverse2f H) H = Identity2f"
proof (cases H)
  case (Matrix2f a b c d)
  define i where "i = 1 / (a * d - b * c)"
  from Matrix2f assms have "(a * d - b * c) * i = 1" by (simp add: i_def)
  then have 1: "d * i * a + - b * i * c = 1" and 4: "- c * i * b + a * i * d = 1"
    by (simp_all add: algebra_simps)
  have 2: "d * i * b + - b * i * d = 0" and 3: "- c * i * a + a * i * c = 0"
    by simp_all
  show ?thesis
    unfolding Matrix2f inverse2f.simps Let_def mult2f.simps Identity2f_def i_def [symmetric]
    using 1 2 3 4 by simp
qed

lemma updateLMBelief_new:
  assumes "m_robot p = Some rob" and "m_data_label p = int (length (m_lmekf_bank p))"
  shows "updateLMBelief K z p =
     Inr (PF_SUCCESS,
          p\<lparr> m_lmekf_bank := m_lmekf_bank p @
               [(LMEKF2D_new K (inverseMeas rob (m_robot_pose p) z)
                   (proposed_cov (measJacobian rob (inverseMeas rob (m_robot_pose p) z))
                      (getMeasNoise rob)) rob, 1)] \<rparr>)"
  using assms by (simp add: updateLMBelief_def Let_def)

lemma updateLMBelief_existing:
  assumes "m_robot p = Some rob"
    and "0 \<le> m_data_label p" and "m_data_label p < int (length (m_lmekf_bank p))"
  shows "updateLMBelief K z p =
     (let k = nat (m_data_label p);
          entry = m_lmekf_bank p ! k;
          r = update K (updateObservation K z (fst entry))
      in case fst r of
           KF_SUCCESS \<Rightarrow>
             Inr (PF_SUCCESS, p\<lparr> m_lmekf_bank := (m_lmekf_bank p)[k := (snd r, snd entry + 1)] \<rparr>)
         | KF_EMPTY_ROBOT_MANAGER \<Rightarrow>
             Inr (PF_EMPTY_ROBOT_MANAGER,
                  p\<lparr> m_lmekf_bank := (m_lmekf_bank p)[k := (snd r, snd entry)] \<rparr>)
         | KF_MATRIX_INVERSION_ERROR \<Rightarrow>
             Inr (PF_MATRIX_INVERSION_ERROR,
                  p\<lparr> m_lmekf_bank := (m_lmekf_bank p)[k := (snd r, snd entry)] \<rparr>))"
  using assms by (simp add: updateLMBelief_def Let_def split: KF_RET.splits)

text \<open>
  C5. With a robot manager present: when the data label is the size of the bank,
  \<open>updateLMBelief\<close> succeeds and appends one entry, the filter constructed from the mean
  \<open>inverseMeas(pose, z)\<close> and from the identity when the determinant of the measurement
  Jacobian \<open>H\<close> at that mean is 0 and from \<open>H\<^sup>-\<^sup>1 R (H\<^sup>-\<^sup>1)\<^sup>T\<close> otherwise, with counter 1. When the
  label is an index of the bank and the Kalman update of that filter succeeds, the call
  succeeds, the bank keeps its length, the counter at the label grows by 1 and every
  other entry is unchanged.
\<close>

theorem updateLMBelief_paths:
  assumes "m_robot p = Some rob"
  shows "(m_data_label p = int (length (m_lmekf_bank p)) \<longrightarrow>
            updateLMBelief K z p =
              Inr (PF_SUCCESS,
                   p\<lparr> m_lmekf_bank := m_lmekf_bank p @
                        [(LMEKF2D_new K (inverseMeas rob (m_robot_pose p) z)
                            (if determinant (measJacobian rob (inverseMeas rob (m_robot_pose p) z)) = 0
                             then Matrix2f 1 0 0 1
                             else mult2f
                                    (mult2f
                                       (inverse2f (measJacobian rob (inverseMeas rob (m_robot_pose p) z)))
                                       (getMeasNoise rob))
                                    (transpose2f
                                       (inverse2f (measJacobian rob (inverseMeas rob (m_robot_pose p) z)))))
                            rob, 1)] \<rparr>))
       \<and> (0 \<le> m_data_label p \<and> m_data_label p < int (length (m_lmekf_bank p))
            \<and> fst (update K (updateObservation K z (fst (m_lmekf_bank p ! nat (m_data_label p)))))
                = KF_SUCCESS \<longrightarrow>
            (\<exists>p'. updateLMBelief K z p = Inr (PF_SUCCESS, p')
               \<and> length (m_lmekf_bank p') = length (m_lmekf_bank p)
               \<and> snd (m_lmekf_bank p' ! nat (m_data_label p))
                   = snd (m_lmekf_bank p ! nat (m_data_label p)) + 1
               \<and> (\<forall>j < length (m_lmekf_bank p). j \<noteq> nat (m_data_label p) \<longrightarrow>
                     m_lmekf_bank p' ! j = m_lmekf_bank p ! j)))"
proof (intro conjI impI)
  assume "m_data_label p = int (length (m_lmekf_bank p))"
  from updateLMBelief_new [OF assms this, of K z]
  show "updateLMBelief K z p =
              Inr (PF_SUCCESS,
                   p\<lparr> m_lmekf_bank := m_lmekf_bank p @
                        [(LMEKF2D_new K (inverseMeas rob (m_robot_pose p) z)
                            (if determinant (measJacobian rob (inverseMeas rob (m_robot_pose p) z)) = 0
                             then Matrix2f 1 0 0 1
                             else mult2f
                                    (mult2f
                                       (inverse2f (measJacobian rob (inverseMeas rob (m_robot_pose p) z)))
                                       (getMeasNoise rob))
                                    (transpose2f
                                       (inverse2f (measJacobian rob (inverseMeas rob (m_robot_pose p) z)))))
                            rob, 1)] \<rparr>)"
    by (simp add: proposed_cov_def Identity2f_def)
next
  assume a: "0 \<le> m_data_label p \<and> m_data_label p < int (length (m_lmekf_bank p))
            \<and> fst (update K (updateObservation K z (fst (m_lmekf_bank p ! nat (m_data_label p)))))
                = KF_SUCCESS"
  let ?k = "nat (m_data_label p)"
  let ?r = "update K (updateObservation K z (fst (m_lmekf_bank p ! ?k)))"
  let ?p' = "p\<lparr> m_lmekf_bank := (m_lmekf_bank p)[?k := (snd ?r, snd (m_lmekf_bank p ! ?k) + 1)] \<rparr>"
  have k: "?k < length (m_lmekf_bank p)" using a by (simp add: nat_less_iff)
  have "updateLMBelief K z p = Inr (PF_SUCCESS, ?p')"
    using updateLMBelief_existing [OF assms, of K z] a by (simp add: Let_def)
  moreover have "length (m_lmekf_bank ?p') = length (m_lmekf_bank p)" by simp
  moreover have "snd (m_lmekf_bank ?p' ! ?k) = snd (m_lmekf_bank p ! ?k) + 1"
    using k by simp
  moreover have "\<forall>j < length (m_lmekf_bank p). j \<noteq> ?k \<longrightarrow>
                     m_lmekf_bank ?p' ! j = m_lmekf_bank p ! j"
    by simp
  ultimately show "\<exists>p'. updateLMBelief K z p = Inr (PF_SUCCESS, p')
               \<and> length (m_lmekf_bank p') = length (m_lmekf_bank p)
               \<and> snd (m_lmekf_bank p' ! nat (m_data_label p))
                   = snd (m_lmekf_bank p ! nat (m_data_label p)) + 1
               \<and> (\<forall>j < length (m_lmekf_bank p). j \<noteq> nat (m_data_label p) \<longrightarrow>
                     m_lmekf_bank p' ! j = m_lmekf_bank p ! j)"
    by blast
qed

theorem updateLMBelief_paths_witness:
  "m_robot (toyParticle (Some (toyRobot Zero3f)) []) = Some (toyRobot Zero3f)
   \<and> m_data_label (toyParticle (Some (toyRobot Zero3f)) [])
       = int (length (m_lmekf_bank (toyParticle (Some (toyRobot Zero3f)) [])))
   \<and> updateLMBelief toyK 3 (toyParticle (Some (toyRobot Zero3f)) [])
       = Inr (PF_SUCCESS, toyParticle (Some (toyRobot Zero3f)) [(3, 1)])
   \<and> m_robot (toyParticle (Some (toyRobot Zero3f)) [(2, 1)]) = Some (toyRobot Zero3f)
   \<and> (\<exists>p'. updateLMBelief toyK 2 (toyParticle (Some (toyRobot Zero3f)) [(2, 1)])
              = Inr (PF_SUCCESS, p')
         \<and> length (m_lmekf_bank p') = 1
         \<and> snd (m_lmekf_bank p' ! 0) = 2)"
proof -
  let ?R = "toyRobot Zero3f"
  let ?A = "toyParticle (Some ?R) []"
  let ?B = "toyParticle (Some ?R) [(2, 1)]"
  have ra: "m_robot ?A = Some ?R" and rb: "m_robot ?B = Some ?R"
    by (simp_all add: toyParticle_def)
  have la: "m_data_label ?A = int (length (m_lmekf_bank ?A))"
    by (simp add: toyParticle_def)
  have hb: "0 \<le> m_data_label ?B \<and> m_data_label ?B < int (length (m_lmekf_bank ?B))
      \<and> fst (update toyK (updateObservation toyK 2 (fst (m_lmekf_bank ?B ! nat (m_data_label ?B)))))
          = KF_SUCCESS"
    by (simp add: toyParticle_def toyK_def)
  from updateLMBelief_paths [OF ra, of toyK 3, THEN conjunct1, THEN mp, OF la]
  have a: "updateLMBelief toyK 3 ?A = Inr (PF_SUCCESS, toyParticle (Some ?R) [(3, 1)])"
    by (simp add: toyParticle_def toyK_def toyRobot_def pose0_def Identity2f_def)
  from updateLMBelief_paths [OF rb, of toyK 2, THEN conjunct2, THEN mp, OF hb]
  have b: "\<exists>p'. updateLMBelief toyK 2 ?B = Inr (PF_SUCCESS, p')
         \<and> length (m_lmekf_bank p') = 1 \<and> snd (m_lmekf_bank p' ! 0) = 2"
    by (auto simp add: toyParticle_def)
  show ?thesis by (intro conjI ra la a rb b)
qed

section \<open>Sighting cleanup\<close>

lemma cleanUpSightings_loop_other:
  "i \<noteq> lbl \<Longrightarrow>
     cleanUpSightings_loop K (Some r) pose lbl i bank = Inr (map (cleanUp_entry K r pose) bank)"
  by (induction bank) (simp_all add: cleanUp_entry_def)

lemma cleanUpSightings_loop_skip:
  "cleanUpSightings_loop K (Some r) pose lbl lbl bank =
     Inr (case bank of [] \<Rightarrow> [] | it # rest \<Rightarrow> it # map (cleanUp_entry K r pose) rest)"
  by (cases bank) (simp_all add: cleanUpSightings_loop_other)

lemma cleanUpSightings_eq:
  assumes "m_robot p = Some r"
  shows "cleanUpSightings K p =
     Inr (p\<lparr> m_lmekf_bank :=
            (if m_data_label p = 0
             then (case m_lmekf_bank p of [] \<Rightarrow> []
                   | it # rest \<Rightarrow> it # map (cleanUp_entry K r (m_robot_pose p)) rest)
             else map (cleanUp_entry K r (m_robot_pose p)) (m_lmekf_bank p)) \<rparr>)"
proof (cases "m_data_label p = 0")
  case True
  then show ?thesis
    using assms cleanUpSightings_loop_skip [of K r "m_robot_pose p" 0 "m_lmekf_bank p"]
    by (simp add: cleanUpSightings_def)
next
  case False
  then have "(0::int) \<noteq> m_data_label p" by simp
  from cleanUpSightings_loop_other [OF this, of K r "m_robot_pose p" "m_lmekf_bank p"] False
  show ?thesis using assms by (simp add: cleanUpSightings_def)
qed

lemma fst_cleanUp_entry [simp]: "fst (cleanUp_entry K r pose it) = fst it"
  by (simp add: cleanUp_entry_def)

text \<open>
  C9 as amended. With a robot manager present, \<open>cleanUpSightings\<close> returns a particle
  whose bank holds the same filters in the same places: nothing is pruned. At every
  index other than the data label, the counter is decremented by one when the mean of
  the filter lies within the perceptual range of the pose, whatever the counter was, and
  is unchanged otherwise.
\<close>

theorem cleanUpSightings_effect:
  assumes "m_robot p = Some rob"
  shows "\<exists>p'. cleanUpSightings K p = Inr p'
       \<and> map fst (m_lmekf_bank p') = map fst (m_lmekf_bank p)
       \<and> (\<forall>k < length (m_lmekf_bank p). int k \<noteq> m_data_label p \<longrightarrow>
             snd (m_lmekf_bank p' ! k) =
               (if findDist (getLMEst K (fst (m_lmekf_bank p ! k))) (m_robot_pose p)
                     \<le> getPerceptualRange rob
                then snd (m_lmekf_bank p ! k) - 1
                else snd (m_lmekf_bank p ! k)))"
proof (cases "m_data_label p = 0")
  case True
  show ?thesis
  proof (cases "m_lmekf_bank p")
    case Nil
    with True show ?thesis using cleanUpSightings_eq [OF assms, of K] by simp
  next
    case (Cons it rest)
    have "\<forall>k < length (it # rest). int k \<noteq> 0 \<longrightarrow>
        snd ((it # map (cleanUp_entry K rob (m_robot_pose p)) rest) ! k) =
          (if findDist (getLMEst K (fst ((it # rest) ! k))) (m_robot_pose p)
                \<le> getPerceptualRange rob
           then snd ((it # rest) ! k) - 1 else snd ((it # rest) ! k))"
    proof (intro allI impI)
      fix k assume "k < length (it # rest)" "int k \<noteq> 0"
      then obtain j where "k = Suc j" "j < length rest" by (cases k) auto
      then show "snd ((it # map (cleanUp_entry K rob (m_robot_pose p)) rest) ! k) =
          (if findDist (getLMEst K (fst ((it # rest) ! k))) (m_robot_pose p)
                \<le> getPerceptualRange rob
           then snd ((it # rest) ! k) - 1 else snd ((it # rest) ! k))"
        by (simp add: cleanUp_entry_def)
    qed
    with True Cons show ?thesis
      using cleanUpSightings_eq [OF assms, of K] by (simp add: comp_def)
  qed
next
  case False
  have "\<forall>k < length (m_lmekf_bank p).
      snd (map (cleanUp_entry K rob (m_robot_pose p)) (m_lmekf_bank p) ! k) =
        (if findDist (getLMEst K (fst (m_lmekf_bank p ! k))) (m_robot_pose p)
              \<le> getPerceptualRange rob
         then snd (m_lmekf_bank p ! k) - 1 else snd (m_lmekf_bank p ! k))"
    by (simp add: cleanUp_entry_def)
  with False show ?thesis
    using cleanUpSightings_eq [OF assms, of K] by (simp add: comp_def)
qed

theorem cleanUpSightings_effect_witness:
  "m_robot (toyParticle (Some (toyRobot Zero3f)) [(0, 1), (1, 1), (20, 1)]) = Some (toyRobot Zero3f)
   \<and> (\<exists>p'. cleanUpSightings toyK (toyParticle (Some (toyRobot Zero3f)) [(0, 1), (1, 1), (20, 1)])
              = Inr p'
         \<and> map fst (m_lmekf_bank p') = [(0, 0), (1, 0), (20, 0)]
         \<and> snd (m_lmekf_bank p' ! 1) = 0
         \<and> snd (m_lmekf_bank p' ! 2) = 1)"
proof -
  let ?R = "toyRobot Zero3f"
  let ?P = "toyParticle (Some ?R) [(0, 1), (1, 1), (20, 1)]"
  have h: "m_robot ?P = Some ?R" by (simp add: toyParticle_def)
  from cleanUpSightings_effect [OF h, of toyK]
  obtain p' where a: "cleanUpSightings toyK ?P = Inr p'"
    and b: "map fst (m_lmekf_bank p') = map fst (m_lmekf_bank ?P)"
    and c: "\<forall>k < length (m_lmekf_bank ?P). int k \<noteq> m_data_label ?P \<longrightarrow>
             snd (m_lmekf_bank p' ! k) =
               (if findDist (getLMEst toyK (fst (m_lmekf_bank ?P ! k))) (m_robot_pose ?P)
                     \<le> getPerceptualRange ?R
                then snd (m_lmekf_bank ?P ! k) - 1
                else snd (m_lmekf_bank ?P ! k))"
    by blast
  from b have b': "map fst (m_lmekf_bank p') = [(0, 0), (1, 0), (20, 0)]"
    by (simp add: toyParticle_def)
  from c [rule_format, of 1] have c1: "snd (m_lmekf_bank p' ! 1) = 0"
    by (simp add: toyParticle_def toyK_def toyRobot_def pose0_def findDist_def)
  from c [rule_format, of 2] have c2: "snd (m_lmekf_bank p' ! 2) = 1"
    by (simp add: toyParticle_def toyK_def toyRobot_def pose0_def findDist_def)
  have "\<exists>p'. cleanUpSightings toyK ?P = Inr p'
         \<and> map fst (m_lmekf_bank p') = [(0, 0), (1, 0), (20, 0)]
         \<and> snd (m_lmekf_bank p' ! 1) = 0
         \<and> snd (m_lmekf_bank p' ! 2) = 1"
    by (rule exI [of _ p']) (intro conjI a b' c1 c2)
  with h show ?thesis by (intro conjI)
qed

text \<open>
  C9 as stated fails. A particle holds two landmarks with counter 1, both in range; the
  one at index 0 was just updated. The cleanup takes the other counter to 0 and keeps
  the filter in the bank; a second cleanup takes the counter to -1.
\<close>

theorem cleanUpSightings_counterexample:
  "cleanUpSightings toyK (toyParticle (Some (toyRobot Zero3f)) [(0, 1), (1, 1)])
     = Inr (toyParticle (Some (toyRobot Zero3f)) [(0, 1), (1, 0)])
   \<and> cleanUpSightings toyK (toyParticle (Some (toyRobot Zero3f)) [(0, 1), (1, 0)])
     = Inr (toyParticle (Some (toyRobot Zero3f)) [(0, 1), (1, - 1)])"
  by (simp add: cleanUpSightings_def toyParticle_def toyK_def toyRobot_def pose0_def findDist_def)


section \<open>The per-observation driver\<close>

lemma updateLMBelief_total:
  assumes "m_robot p = Some rob"
    and "0 \<le> m_data_label p" and "m_data_label p \<le> int (length (m_lmekf_bank p))"
  shows "\<exists>ret p2. updateLMBelief K z p = Inr (ret, p2)
       \<and> (ret = PF_SUCCESS \<or> ret = PF_EMPTY_ROBOT_MANAGER \<or> ret = PF_MATRIX_INVERSION_ERROR)
       \<and> m_curr_max_wn p2 = m_curr_max_wn p \<and> m_robot p2 = m_robot p"
proof (cases "m_data_label p = int (length (m_lmekf_bank p))")
  case True
  from updateLMBelief_new [OF assms(1) True, of K z] show ?thesis by simp
next
  case False
  with assms(3) have lt: "m_data_label p < int (length (m_lmekf_bank p))" by simp
  from updateLMBelief_existing [OF assms(1,2) lt, of K z] show ?thesis
    by (auto simp add: Let_def split: KF_RET.splits)
qed

lemma cleanUpSightings_weight:
  assumes "m_robot p = Some rob"
  shows "\<exists>p3. cleanUpSightings K p = Inr p3 \<and> m_curr_max_wn p3 = m_curr_max_wn p"
  using cleanUpSightings_eq [OF assms, of K] by simp

text \<open>
  C6. With a robot manager present, an observation \<open>z\<close> and the particle \<open>p1\<close> that
  \<open>matchLandmark\<close> leaves, \<open>updateLMBelief\<close> returns a code and \<open>updateParticle\<close> returns a
  weight. The weight is the sentinel, the value of \<open>UPDATE_ERROR\<close> as a float, exactly
  when the code is not success, and then the code is \<open>EMPTY_ROBOT_MANAGER\<close> or
  \<open>MATRIX_INVERSION_ERROR\<close>. On success the weight is the maximum recorded by
  \<open>matchLandmark\<close>, the largest density, when an existing landmark was matched, and the
  importance factor when the data label is the size of the bank. The enumerators of the
  two error codes differ from that of success, and the sentinel differs from the
  importance factor and from every density, as the specification requires of it.
\<close>

theorem updateParticle_weight:
  assumes "m_robot p = Some rob"
    and "matchLandmark K z p = (r, p1)"
    and "pfi PF_EMPTY_ROBOT_MANAGER \<noteq> pfi PF_SUCCESS"
    and "pfi PF_MATRIX_INVERSION_ERROR \<noteq> pfi PF_SUCCESS"
    and "real_of_int (pfi PF_UPDATE_ERROR) \<noteq> m_importance_factor p"
    and "\<forall>w \<in> set (cpd_list K z (m_lmekf_bank p)). w \<noteq> real_of_int (pfi PF_UPDATE_ERROR)"
  shows "\<exists>ret p2 w p'. updateLMBelief K z p1 = Inr (ret, p2)
       \<and> updateParticle K c pfi z p = Inr (w, p')
       \<and> (ret = PF_SUCCESS \<or> ret = PF_EMPTY_ROBOT_MANAGER \<or> ret = PF_MATRIX_INVERSION_ERROR)
       \<and> (w = real_of_int (pfi PF_UPDATE_ERROR) \<longleftrightarrow> ret \<noteq> PF_SUCCESS)
       \<and> (ret = PF_SUCCESS \<and> r < int (length (m_lmekf_bank p)) \<longrightarrow>
            w = m_curr_max_wn p1 \<and> w = Max (set (cpd_list K z (m_lmekf_bank p))))
       \<and> (ret = PF_SUCCESS \<and> r = int (length (m_lmekf_bank p)) \<longrightarrow>
            w = m_importance_factor p)"
proof -
  let ?ws = "cpd_list K z (m_lmekf_bank p)"
  let ?w0 = "m_importance_factor p"
  let ?ue = "real_of_int (pfi PF_UPDATE_ERROR)"
  have r: "r = fst (matchLandmark K z p)" and p1: "p1 = snd (matchLandmark K z p)"
    using assms(2) by simp_all
  have rob1: "m_robot p1 = Some rob" unfolding p1 using assms(1) by (simp add: matchLandmark_fields)
  have lbl: "m_data_label p1 = r" unfolding p1 r by (simp add: matchLandmark_fields(1))
  have len: "length (m_lmekf_bank p1) = length (m_lmekf_bank p)"
    unfolding p1 by (simp add: matchLandmark_fields(2))
  have rng: "0 \<le> m_data_label p1" "m_data_label p1 \<le> int (length (m_lmekf_bank p1))"
    unfolding lbl len unfolding r by (rule matchLandmark_range)+
  have mx: "m_curr_max_wn p1 = Max (insert ?w0 (set ?ws))"
    unfolding p1 by (rule matchLandmark_fields(3))
  have mx_in: "m_curr_max_wn p1 \<in> insert ?w0 (set ?ws)"
    unfolding mx by (rule Max_in) simp_all
  have not_ue: "m_curr_max_wn p1 \<noteq> ?ue"
    using mx_in assms(5,6) by auto
  have existing: "r < int (length (m_lmekf_bank p)) \<Longrightarrow> m_curr_max_wn p1 = Max (set ?ws)"
  proof -
    assume lt: "r < int (length (m_lmekf_bank p))"
    have ex: "\<exists>w \<in> set ?ws. ?w0 < w"
    proof (rule ccontr)
      assume "\<not> (\<exists>w \<in> set ?ws. ?w0 < w)"
      then have "\<forall>w \<in> set ?ws. w \<le> ?w0" by (auto simp add: not_less)
      from matchLandmark_new [OF this] lt show False unfolding r by simp
    qed
    then have ne: "set ?ws \<noteq> {}" by auto
    from ex have "?w0 < Max (set ?ws)" using ne by (simp add: Max_gr_iff)
    then show ?thesis unfolding mx using ne by simp
  qed
  have fresh: "r = int (length (m_lmekf_bank p)) \<Longrightarrow> m_curr_max_wn p1 = ?w0"
  proof -
    assume eq: "r = int (length (m_lmekf_bank p))"
    have le: "\<forall>w \<in> set ?ws. w \<le> ?w0"
    proof (rule ccontr)
      assume "\<not> (\<forall>w \<in> set ?ws. w \<le> ?w0)"
      then have "\<exists>w \<in> set ?ws. ?w0 < w" by (auto simp add: not_le)
      from matchLandmark_existing [OF this] eq show False unfolding r by simp
    qed
    show ?thesis unfolding mx by (rule Max_eqI) (use le in auto)
  qed
  from updateLMBelief_total [OF rob1 rng, of K z]
  obtain ret p2 where u: "updateLMBelief K z p1 = Inr (ret, p2)"
    and codes: "ret = PF_SUCCESS \<or> ret = PF_EMPTY_ROBOT_MANAGER \<or> ret = PF_MATRIX_INVERSION_ERROR"
    and w2: "m_curr_max_wn p2 = m_curr_max_wn p1" and rob2: "m_robot p2 = Some rob"
    using rob1 by auto
  from cleanUpSightings_weight [OF rob2, of K]
  obtain p3 where cl: "cleanUpSightings K p2 = Inr p3"
    and w3: "m_curr_max_wn p3 = m_curr_max_wn p1" using w2 by auto
  show ?thesis
  proof (cases "ret = PF_SUCCESS")
    case True
    have "updateParticle K c pfi z p = Inr (m_curr_max_wn p1, if c then p3 else p2)"
      using assms(1) u True cl w2 w3
      by (simp add: updateParticle_def p1 [symmetric] Let_def getParticleWeight_def)
    with u codes True not_ue existing fresh show ?thesis by auto
  next
    case False
    with codes assms(3,4) have "pfi ret \<noteq> pfi PF_SUCCESS" by auto
    then have "updateParticle K c pfi z p = Inr (?ue, p2)"
      using assms(1) u by (simp add: updateParticle_def p1 [symmetric] Let_def)
    with u codes False show ?thesis by auto
  qed
qed

theorem updateParticle_weight_witness:
  "m_robot (toyParticle (Some (toyRobot Zero3f)) [(5, 1), (2, 1)]) = Some (toyRobot Zero3f)
   \<and> matchLandmark toyK 2 (toyParticle (Some (toyRobot Zero3f)) [(5, 1), (2, 1)])
       = (1, snd (matchLandmark toyK 2 (toyParticle (Some (toyRobot Zero3f)) [(5, 1), (2, 1)])))
   \<and> toyCodes PF_EMPTY_ROBOT_MANAGER \<noteq> toyCodes PF_SUCCESS
   \<and> toyCodes PF_MATRIX_INVERSION_ERROR \<noteq> toyCodes PF_SUCCESS
   \<and> real_of_int (toyCodes PF_UPDATE_ERROR)
       \<noteq> m_importance_factor (toyParticle (Some (toyRobot Zero3f)) [(5, 1), (2, 1)])
   \<and> cpd_list toyK 2 (m_lmekf_bank (toyParticle (Some (toyRobot Zero3f)) [(5, 1), (2, 1)]))
       = [1 / 10, 1]
   \<and> real_of_int (toyCodes PF_UPDATE_ERROR) = 3
   \<and> (\<exists>p'. updateParticle toyK False toyCodes 2
              (toyParticle (Some (toyRobot Zero3f)) [(5, 1), (2, 1)]) = Inr (1, p'))
   \<and> (\<exists>p'. updateParticle toyK False toyCodes 2
              (toyParticle (Some (toyRobot Zero3f)) [(5, 1)]) = Inr (1 / 2, p'))
   \<and> (\<exists>p'. updateParticle (toyK\<lparr> update := (\<lambda>e. (KF_MATRIX_INVERSION_ERROR, e)) \<rparr>) False
              toyCodes 2 (toyParticle (Some (toyRobot Zero3f)) [(5, 1), (2, 1)]) = Inr (3, p'))"
proof -
  let ?R = "toyRobot Zero3f"
  let ?P = "toyParticle (Some ?R) [(5, 1), (2, 1)]"
  let ?p1 = "snd (matchLandmark toyK 2 ?P)"
  have h1: "m_robot ?P = Some ?R" by (simp add: toyParticle_def)
  have h2: "matchLandmark toyK 2 ?P = (1, ?p1)"
    by (simp add: prod_eq_iff matchLandmark_def toyParticle_def toyK_def Let_def)
  have h3: "toyCodes PF_EMPTY_ROBOT_MANAGER \<noteq> toyCodes PF_SUCCESS"
    and h4: "toyCodes PF_MATRIX_INVERSION_ERROR \<noteq> toyCodes PF_SUCCESS"
    and ue: "real_of_int (toyCodes PF_UPDATE_ERROR) = 3"
    by (simp_all add: toyCodes_def)
  have h5: "real_of_int (toyCodes PF_UPDATE_ERROR) \<noteq> m_importance_factor ?P"
    by (simp add: toyCodes_def toyParticle_def)
  have ws: "cpd_list toyK 2 (m_lmekf_bank ?P) = [1 / 10, 1]"
    by (simp add: toyParticle_def toyK_def cpd_list_def)
  have h6: "\<forall>w \<in> set (cpd_list toyK 2 (m_lmekf_bank ?P)).
              w \<noteq> real_of_int (toyCodes PF_UPDATE_ERROR)"
    by (simp add: ws ue)
  \<comment> \<open>an existing landmark is matched and its update succeeds\<close>
  from updateParticle_weight [OF h1 h2 h3 h4 h5 h6, of False]
  obtain ret p2 w p' where u: "updateLMBelief toyK 2 ?p1 = Inr (ret, p2)"
    and up: "updateParticle toyK False toyCodes 2 ?P = Inr (w, p')"
    and s: "ret = PF_SUCCESS \<and> 1 < int (length (m_lmekf_bank ?P)) \<longrightarrow>
              w = m_curr_max_wn ?p1 \<and> w = Max (set (cpd_list toyK 2 (m_lmekf_bank ?P)))"
    by blast
  have "\<exists>q. updateLMBelief toyK 2 ?p1 = Inr (PF_SUCCESS, q)"
    by (simp add: updateLMBelief_def matchLandmark_def toyParticle_def toyK_def Let_def)
  with u have ret: "ret = PF_SUCCESS" by auto
  have "1 < int (length (m_lmekf_bank ?P))" by (simp add: toyParticle_def)
  with s ret have "w = Max (set (cpd_list toyK 2 (m_lmekf_bank ?P)))" by blast
  then have "w = 1" unfolding ws by simp
  with up have a: "\<exists>p'. updateParticle toyK False toyCodes 2 ?P = Inr (1, p')" by blast
  \<comment> \<open>no landmark is matched\<close>
  let ?Q = "toyParticle (Some ?R) [(5, 1)]"
  let ?q1 = "snd (matchLandmark toyK 2 ?Q)"
  have k1: "m_robot ?Q = Some ?R" by (simp add: toyParticle_def)
  have k2: "matchLandmark toyK 2 ?Q = (1, ?q1)"
    by (simp add: prod_eq_iff matchLandmark_def toyParticle_def toyK_def Let_def)
  have k5: "real_of_int (toyCodes PF_UPDATE_ERROR) \<noteq> m_importance_factor ?Q"
    by (simp add: toyCodes_def toyParticle_def)
  have k6: "\<forall>w \<in> set (cpd_list toyK 2 (m_lmekf_bank ?Q)).
              w \<noteq> real_of_int (toyCodes PF_UPDATE_ERROR)"
    by (simp add: toyParticle_def toyK_def cpd_list_def ue)
  from updateParticle_weight [OF k1 k2 h3 h4 k5 k6, of False]
  obtain ret p2 w p' where u: "updateLMBelief toyK 2 ?q1 = Inr (ret, p2)"
    and up: "updateParticle toyK False toyCodes 2 ?Q = Inr (w, p')"
    and s: "ret = PF_SUCCESS \<and> 1 = int (length (m_lmekf_bank ?Q)) \<longrightarrow>
              w = m_importance_factor ?Q"
    by blast
  have "\<exists>q. updateLMBelief toyK 2 ?q1 = Inr (PF_SUCCESS, q)"
    by (simp add: updateLMBelief_def matchLandmark_def toyParticle_def toyK_def Let_def)
  with u have ret: "ret = PF_SUCCESS" by auto
  have "1 = int (length (m_lmekf_bank ?Q))" by (simp add: toyParticle_def)
  with s ret have "w = m_importance_factor ?Q" by blast
  then have "w = 1 / 2" by (simp add: toyParticle_def)
  with up have b: "\<exists>p'. updateParticle toyK False toyCodes 2 ?Q = Inr (1 / 2, p')" by blast
  \<comment> \<open>the update of the matched filter fails\<close>
  let ?K = "toyK\<lparr> update := (\<lambda>e. (KF_MATRIX_INVERSION_ERROR, e)) \<rparr>"
  let ?r1 = "snd (matchLandmark ?K 2 ?P)"
  have j2: "matchLandmark ?K 2 ?P = (1, ?r1)"
    by (simp add: prod_eq_iff matchLandmark_def toyParticle_def toyK_def Let_def)
  have j6: "\<forall>w \<in> set (cpd_list ?K 2 (m_lmekf_bank ?P)).
              w \<noteq> real_of_int (toyCodes PF_UPDATE_ERROR)"
    by (simp add: toyParticle_def toyK_def cpd_list_def ue)
  from updateParticle_weight [OF h1 j2 h3 h4 h5 j6, of False]
  obtain ret p2 w p' where u: "updateLMBelief ?K 2 ?r1 = Inr (ret, p2)"
    and up: "updateParticle ?K False toyCodes 2 ?P = Inr (w, p')"
    and s: "w = real_of_int (toyCodes PF_UPDATE_ERROR) \<longleftrightarrow> ret \<noteq> PF_SUCCESS"
    by blast
  have "\<exists>q. updateLMBelief ?K 2 ?r1 = Inr (PF_MATRIX_INVERSION_ERROR, q)"
    by (simp add: updateLMBelief_def matchLandmark_def toyParticle_def toyK_def Let_def)
  with u have "ret \<noteq> PF_SUCCESS" by auto
  with s have "w = 3" unfolding ue by blast
  with up have c: "\<exists>p'. updateParticle ?K False toyCodes 2 ?P = Inr (3, p')" by blast
  show ?thesis by (intro conjI h1 h2 h3 h4 h5 ws ue a b c)
qed

section \<open>Drawing with replacement\<close>

lemmas drawWithReplacement_eval =
  drawWithReplacement_def drawWithReplacement_loop.simps signed_divide_int_def

lemma sdiv_2_nonneg:
  "0 \<le> (a::int) \<Longrightarrow> a sdiv 2 = a div 2"
  by (simp add: signed_divide_int_def sgn_if)

lemma drawWithReplacement_loop_returns:
  assumes "0 \<le> start" and "start \<le> endi" and "endi < int (length cdf_vec)"
  shows "\<exists>r. drawWithReplacement_loop cdf_vec sample start endi middle = Some r
       \<and> (start < endi \<longrightarrow> (\<exists>m. r = Inr m \<and> start \<le> m \<and> m < endi))
       \<and> (start = endi \<longrightarrow>
            r = (case middle of None \<Rightarrow> Inl UninitialisedRead | Some m \<Rightarrow> Inr m))"
  using assms
proof (induction "nat (endi - start)" arbitrary: start endi middle rule: less_induct)
  case less
  show ?case
  proof (cases "start = endi")
    case True
    then show ?thesis
      by (subst drawWithReplacement_loop.simps) (simp split: option.splits)
  next
    case False
    with less.prems have lt: "start < endi" by simp
    define m where "m = (start + endi) sdiv 2"
    have m: "m = (start + endi) div 2"
      unfolding m_def using less.prems by (intro sdiv_2_nonneg) simp
    have mb: "start \<le> m" "m < endi" using lt unfolding m by simp_all
    have inb: "\<not> (m < 0 \<or> int (length cdf_vec) \<le> m)"
      using mb less.prems by simp
    show ?thesis
    proof (cases "sample \<ge> cdf_vec ! nat m")
      case True
      have step: "drawWithReplacement_loop cdf_vec sample start endi middle
          = drawWithReplacement_loop cdf_vec sample (m + 1) endi (Some m)"
        using False inb True
        by (subst drawWithReplacement_loop.simps) (simp add: m_def [symmetric] Let_def)
      have "nat (endi - (m + 1)) < nat (endi - start)" using mb by simp
      from less.hyps [OF this, of "Some m"] mb less.prems
      obtain r where r: "drawWithReplacement_loop cdf_vec sample (m + 1) endi (Some m) = Some r"
        and a: "m + 1 < endi \<longrightarrow> (\<exists>k. r = Inr k \<and> m + 1 \<le> k \<and> k < endi)"
        and b: "m + 1 = endi \<longrightarrow> r = Inr m"
        by auto
      have "\<exists>k. r = Inr k \<and> start \<le> k \<and> k < endi"
      proof (cases "m + 1 < endi")
        case True
        with a mb show ?thesis by auto
      next
        case False
        with mb have "m + 1 = endi" by simp
        with b mb show ?thesis by auto
      qed
      with step r lt show ?thesis by simp
    next
      case False
      have step: "drawWithReplacement_loop cdf_vec sample start endi middle
          = drawWithReplacement_loop cdf_vec sample start m (Some m)"
        using \<open>start \<noteq> endi\<close> inb False
        by (subst drawWithReplacement_loop.simps) (simp add: m_def [symmetric] Let_def)
      have "nat (m - start) < nat (endi - start)" using mb by simp
      from less.hyps [OF this, of "Some m"] mb less.prems
      obtain r where r: "drawWithReplacement_loop cdf_vec sample start m (Some m) = Some r"
        and a: "start < m \<longrightarrow> (\<exists>k. r = Inr k \<and> start \<le> k \<and> k < m)"
        and b: "start = m \<longrightarrow> r = Inr m"
        by auto
      have "\<exists>k. r = Inr k \<and> start \<le> k \<and> k < endi"
      proof (cases "start < m")
        case True
        with a mb show ?thesis by auto
      next
        case False
        with mb have "start = m" by simp
        with b mb show ?thesis by auto
      qed
      with step r lt show ?thesis by simp
    qed
  qed
qed

text \<open>The search returns for every non-empty table. Outside the range of the table it
  returns -1. On a table of one entry it reads \<open>middle\<close> before any assignment. On a
  longer table it returns an index below the last one, whatever the sample.\<close>

lemma nat_int_pred: "nat (int n - 1) = n - 1"
  by arith

lemma drawWithReplacement_out_of_range:
  "cdf_vec \<noteq> [] \<Longrightarrow> sample < 0 \<or> last cdf_vec < sample \<Longrightarrow>
     drawWithReplacement cdf_vec sample = Inr (- 1)"
  by (auto simp add: drawWithReplacement_def Let_def last_conv_nth nat_int_pred)

lemma drawWithReplacement_single:
  "0 \<le> sample \<Longrightarrow> sample \<le> c \<Longrightarrow> drawWithReplacement [c] sample = Inl UninitialisedRead"
  by (simp add: drawWithReplacement_def drawWithReplacement_loop.simps)

lemma drawWithReplacement_never_last:
  assumes "2 \<le> length cdf_vec" and "0 \<le> sample" and "sample \<le> last cdf_vec"
  shows "\<exists>m. drawWithReplacement cdf_vec sample = Inr m \<and> 0 \<le> m
       \<and> m < int (length cdf_vec) - 1"
proof -
  have ne: "cdf_vec \<noteq> []" using assms(1) by auto
  have l: "cdf_vec ! nat (int (length cdf_vec) - 1) = last cdf_vec"
    using ne by (simp add: last_conv_nth nat_int_pred)
  from drawWithReplacement_loop_returns [of 0 "int (length cdf_vec) - 1" cdf_vec sample None]
    assms(1) ne
  obtain r m where "drawWithReplacement_loop cdf_vec sample 0 (int (length cdf_vec) - 1) None = Some r"
    and "r = Inr m" and "0 \<le> m" and "m < int (length cdf_vec) - 1"
    by auto
  then show ?thesis
    using assms(2,3) ne by (simp add: drawWithReplacement_def Let_def l)
qed

text \<open>
  C2. The claim asks for the index \<open>j\<close> with \<open>cdf[j-1] \<le> u < cdf[j]\<close>, and for 0 on a table
  of one entry. The function returns \<open>middle\<close>, the last midpoint it probed, where the
  search has converged on \<open>start\<close>. On the table \<open>[1, 2]\<close> the sample \<open>3/2\<close> lies in the
  interval of index 1; the function returns 0, and \<open>3/2\<close> is not below \<open>cdf[0]\<close>. On a table
  of one entry the loop body never runs and \<open>middle\<close> is read before it holds a value.
\<close>

theorem drawWithReplacement_failing:
  "drawWithReplacement [1, 2] (3 / 2) = Inr 0
   \<and> \<not> ((3 / 2 :: real) < [1, 2] ! 0)
   \<and> [1, 2] ! 0 \<le> (3 / 2 :: real) \<and> (3 / 2 :: real) < [1, 2] ! 1
   \<and> drawWithReplacement [1] (1 / 2) = Inl UninitialisedRead"
  by (simp add: drawWithReplacement_eval)

section \<open>Pose sampling\<close>

text \<open>
  C7 as amended. When the Cholesky factorisation of the process noise fails,
  \<open>samplePose\<close> takes the square roots of the eigenvalues as the solver returns them.
  When none is negative it returns the mean plus \<open>V diag(\<surd>\<lambda>) z\<close> for the three normal
  draws \<open>z\<close>. When one is negative the result is not a number: there is no clamp. When all
  are zero, as for zero process noise, it returns exactly the mean.
\<close>

theorem samplePose_fallback:
  assumes "llt E (getProcessNoise rob) = None"
    and "selfAdjointEigenSolver E (getProcessNoise rob) = (V, (l1, l2, l3))"
    and "s1 = sampleNormal M 0 1 g"
    and "s2 = sampleNormal M 0 1 (snd s1)"
    and "s3 = sampleNormal M 0 1 (snd s2)"
  shows "(0 \<le> l1 \<and> 0 \<le> l2 \<and> 0 \<le> l3 \<longrightarrow>
            samplePose E M (Some rob) a_pose_mean g =
              Inr (Pose2D_add a_pose_mean
                     (mult3f_vec (mult_asDiagonal V (sqrt l1, sqrt l2, sqrt l3))
                        (fst s1, fst s2, fst s3)),
                   snd s3))
       \<and> (l1 < 0 \<or> l2 < 0 \<or> l3 < 0 \<longrightarrow>
            samplePose E M (Some rob) a_pose_mean g = Inl NotANumber)
       \<and> (l1 = 0 \<and> l2 = 0 \<and> l3 = 0 \<longrightarrow>
            samplePose E M (Some rob) a_pose_mean g = Inr (a_pose_mean, snd s3))"
proof (intro conjI impI)
  assume "0 \<le> l1 \<and> 0 \<le> l2 \<and> 0 \<le> l3"
  then show "samplePose E M (Some rob) a_pose_mean g =
              Inr (Pose2D_add a_pose_mean
                     (mult3f_vec (mult_asDiagonal V (sqrt l1, sqrt l2, sqrt l3))
                        (fst s1, fst s2, fst s3)),
                   snd s3)"
    using assms by (simp add: samplePose_def cwiseSqrt_def Let_def)
next
  assume "l1 < 0 \<or> l2 < 0 \<or> l3 < 0"
  then show "samplePose E M (Some rob) a_pose_mean g = Inl NotANumber"
    using assms(1,2) by (simp add: samplePose_def cwiseSqrt_def Let_def)
next
  assume z: "l1 = 0 \<and> l2 = 0 \<and> l3 = 0"
  obtain r1 r2 r3 where "V = Matrix3f r1 r2 r3" by (cases V)
  moreover obtain a11 a12 a13 a21 a22 a23 a31 a32 a33
    where "r1 = (a11, a12, a13)" "r2 = (a21, a22, a23)" "r3 = (a31, a32, a33)"
    by (cases r1, cases r2, cases r3) blast
  ultimately
  have "mult3f_vec (mult_asDiagonal V (0, 0, 0)) (fst s1, fst s2, fst s3) = (0, 0, 0)"
    by simp
  then show "samplePose E M (Some rob) a_pose_mean g = Inr (a_pose_mean, snd s3)"
    using assms z by (simp add: samplePose_def cwiseSqrt_def Let_def)
qed

theorem samplePose_fallback_witness:
  "llt toyEigen (getProcessNoise (toyRobot Zero3f)) = None
   \<and> selfAdjointEigenSolver toyEigen (getProcessNoise (toyRobot Zero3f))
       = (Matrix3f (1, 0, 0) (0, 1, 0) (0, 0, 1), (0, 0, 0))
   \<and> samplePose toyEigen toyRng (Some (toyRobot Zero3f))
        \<lparr> x = 3, y = 4, theta_rad = 1 \<rparr> [1, - 1, 2, 7]
       = Inr (\<lparr> x = 3, y = 4, theta_rad = 1 \<rparr>, [7])
   \<and> llt toyEigen (getProcessNoise (toyRobot (Matrix3f (0, 0, 0) (0, 1, 0) (0, 0, 4)))) = None
   \<and> selfAdjointEigenSolver toyEigen
        (getProcessNoise (toyRobot (Matrix3f (0, 0, 0) (0, 1, 0) (0, 0, 4))))
       = (Matrix3f (1, 0, 0) (0, 1, 0) (0, 0, 1), (0, 1, 4))
   \<and> samplePose toyEigen toyRng (Some (toyRobot (Matrix3f (0, 0, 0) (0, 1, 0) (0, 0, 4))))
        \<lparr> x = 3, y = 4, theta_rad = 1 \<rparr> [1, - 1, 2, 7]
       = Inr (\<lparr> x = 3, y = 3, theta_rad = 5 \<rparr>, [7])
   \<and> llt toyEigen (getProcessNoise (toyRobot (Matrix3f (- 4, 0, 0) (0, 0, 0) (0, 0, 1)))) = None
   \<and> selfAdjointEigenSolver toyEigen
        (getProcessNoise (toyRobot (Matrix3f (- 4, 0, 0) (0, 0, 0) (0, 0, 1))))
       = (Matrix3f (1, 0, 0) (0, 1, 0) (0, 0, 1), (- 4, 0, 1))
   \<and> samplePose toyEigen toyRng (Some (toyRobot (Matrix3f (- 4, 0, 0) (0, 0, 0) (0, 0, 1))))
        \<lparr> x = 3, y = 4, theta_rad = 1 \<rparr> [1, - 1, 2, 7]
       = Inl NotANumber"
proof -
  let ?R = "toyRobot Zero3f"
  let ?mu = "\<lparr> x = 3, y = 4, theta_rad = 1 \<rparr>"
  have h1: "llt toyEigen (getProcessNoise ?R) = None"
    by (simp add: toyEigen_def toyRobot_def Zero3f_def)
  have h2: "selfAdjointEigenSolver toyEigen (getProcessNoise ?R)
       = (Matrix3f (1, 0, 0) (0, 1, 0) (0, 0, 1), (0, 0, 0))"
    by (simp add: toyEigen_def toyRobot_def Zero3f_def)
  have z: "(0::real) = 0 \<and> (0::real) = 0 \<and> (0::real) = 0" by simp
  from samplePose_fallback [OF h1 h2 refl refl refl,
      where M = toyRng and g = "[1, - 1, 2, 7]" and a_pose_mean = ?mu,
      THEN conjunct2, THEN conjunct2, THEN mp, OF z]
  have a: "samplePose toyEigen toyRng (Some ?R) ?mu [1, - 1, 2, 7] = Inr (?mu, [7])"
    by (simp add: toyRng_def)
  let ?S = "toyRobot (Matrix3f (0, 0, 0) (0, 1, 0) (0, 0, 4))"
  have i1: "llt toyEigen (getProcessNoise ?S) = None"
    by (simp add: toyEigen_def toyRobot_def Zero3f_def)
  have i2: "selfAdjointEigenSolver toyEigen (getProcessNoise ?S)
       = (Matrix3f (1, 0, 0) (0, 1, 0) (0, 0, 1), (0, 1, 4))"
    by (simp add: toyEigen_def toyRobot_def Zero3f_def)
  have nn: "(0::real) \<le> 0 \<and> (0::real) \<le> 1 \<and> (0::real) \<le> 4" by simp
  have four: "sqrt 4 = 2" using real_sqrt_abs [of 2] by simp
  from samplePose_fallback [OF i1 i2 refl refl refl,
      where M = toyRng and g = "[1, - 1, 2, 7]" and a_pose_mean = ?mu,
      THEN conjunct1, THEN mp, OF nn]
  have b: "samplePose toyEigen toyRng (Some ?S) ?mu [1, - 1, 2, 7]
       = Inr (\<lparr> x = 3, y = 3, theta_rad = 5 \<rparr>, [7])"
    by (simp add: toyRng_def four)
  let ?T = "toyRobot (Matrix3f (- 4, 0, 0) (0, 0, 0) (0, 0, 1))"
  have j1: "llt toyEigen (getProcessNoise ?T) = None"
    by (simp add: toyEigen_def toyRobot_def Zero3f_def)
  have j2: "selfAdjointEigenSolver toyEigen (getProcessNoise ?T)
       = (Matrix3f (1, 0, 0) (0, 1, 0) (0, 0, 1), (- 4, 0, 1))"
    by (simp add: toyEigen_def toyRobot_def Zero3f_def)
  have neg: "(- 4 :: real) < 0 \<or> (0::real) < 0 \<or> (1::real) < 0" by simp
  from samplePose_fallback [OF j1 j2 refl refl refl,
      where M = toyRng and g = "[1, - 1, 2, 7]" and a_pose_mean = ?mu,
      THEN conjunct2, THEN conjunct1, THEN mp, OF neg]
  have c: "samplePose toyEigen toyRng (Some ?T) ?mu [1, - 1, 2, 7] = Inl NotANumber" .
  show ?thesis by (intro conjI h1 h2 a i1 i2 b j1 j2 c)
qed

text \<open>
  C7 as stated fails. The process noise has the eigenvalues -1, 0, 0. The Cholesky
  factorisation fails, the square root of -1 is taken as it is, and the sampled pose is
  not a number; with the eigenvalue clamped to zero the pose would be the mean.
\<close>

theorem samplePose_counterexample:
  "llt toyEigen (Matrix3f (- 1, 0, 0) (0, 0, 0) (0, 0, 0)) = None
   \<and> selfAdjointEigenSolver toyEigen (Matrix3f (- 1, 0, 0) (0, 0, 0) (0, 0, 0))
       = (Matrix3f (1, 0, 0) (0, 1, 0) (0, 0, 1), (- 1, 0, 0))
   \<and> samplePose toyEigen toyRng (Some (toyRobot (Matrix3f (- 1, 0, 0) (0, 0, 0) (0, 0, 0))))
        pose0 [1, 1, 1] = Inl NotANumber"
  by (simp add: samplePose_def cwiseSqrt_def toyEigen_def toyRobot_def toyRng_def pose0_def)

section \<open>Resampling\<close>

lemma reSampleParticles_loop_banks:
  assumes "reSampleParticles_loop M pset cdf_table tw rest aux g = Inr (aux', g')"
    and "\<forall>e \<in> set aux. m_lmekf_bank (snd e) = []"
  shows "\<forall>e \<in> set aux'. m_lmekf_bank (snd e) = []"
  using assms
proof (induction rest arbitrary: aux g)
  case Nil
  then show ?case by simp
next
  case (Cons it rest)
  from Cons.prems(1) obtain q where
    rec: "reSampleParticles_loop M pset cdf_table tw rest
            (umap_insert (fst it, FastSLAMParticles_copy q) aux)
            (snd (sampleUniform M 0 tw g)) = Inr (aux', g')"
    by (auto simp add: Let_def split: sum.splits option.splits)
  have "\<forall>e \<in> set (umap_insert (fst it, FastSLAMParticles_copy q) aux). m_lmekf_bank (snd e) = []"
    using Cons.prems(2) by (auto simp add: umap_insert_def FastSLAMParticles_copy_eq)
  from Cons.IH [OF rec this] show ?case .
qed

text \<open>Whatever the weights and the draws, a resampling that returns leaves the weights
  as they were and every particle of the new set with an empty bank.\<close>

lemma reSampleParticles_result:
  assumes "reSampleParticles M F g = Inr (F', g')"
  shows "m_particle_weights F' = m_particle_weights F"
    and "\<forall>e \<in> set (m_particle_set F'). m_lmekf_bank (snd e) = []"
proof -
  from assms obtain aux where
    l: "reSampleParticles_loop M (m_particle_set F) (snd (genCDF (m_particle_weights F)))
          (fst (genCDF (m_particle_weights F))) (m_particle_set F) [] g = Inr (aux, g')"
    and F': "F' = F\<lparr> m_particle_set := aux \<rparr>"
    by (auto simp add: reSampleParticles_def Let_def split: sum.splits)
  show "m_particle_weights F' = m_particle_weights F" unfolding F' by simp
  from reSampleParticles_loop_banks [OF l] show "\<forall>e \<in> set (m_particle_set F'). m_lmekf_bank (snd e) = []"
    unfolding F' by simp
qed

lemmas particle_eval =
  updateParticle_pose_def updatePose_def updateParticle_def matchLandmark_def
  updateLMBelief_def getParticleWeight_def proposed_cov_def Identity2f_def Let_def

text \<open>
  C8. The claim asks that each slot receives a deep copy of the particle drawn for it.
  The filter holds two particles with the weights 1 and 0; particle 0 has one landmark.
  Both draws select particle 0. The weights are unchanged and both keys are present,
  but the particle installed in each slot has an empty bank: the copy constructor drops
  the bank of its source (the defect of C1). In a filter of one particle the draw reads
  \<open>middle\<close> before it holds a value (the defect of C2), and no particle set results.
\<close>

theorem reSampleParticles_failing:
  "reSampleParticles toyRng
     (toyFilter (toyRobot Zero3f)
        [(0, toyParticle (Some (toyRobot Zero3f)) [(2, 1)]),
         (1, toyParticle (Some (toyRobot Zero3f)) [])] [1, 0])
     [1 / 4, 1 / 2]
   = Inr (toyFilter (toyRobot Zero3f)
            [(0, toyParticle (Some (toyRobot Zero3f)) []),
             (1, toyParticle (Some (toyRobot Zero3f)) [])] [1, 0], [])
   \<and> m_lmekf_bank (toyParticle (Some (toyRobot Zero3f)) [(2, 1)]) = [((2, 0), 1)]
   \<and> reSampleParticles toyRng
       (toyFilter (toyRobot Zero3f) [(0, toyParticle (Some (toyRobot Zero3f)) [(2, 1)])] [1])
       [1 / 2]
     = Inl UninitialisedRead"
  by (simp add: reSampleParticles_def genCDF_def umap_insert_def FastSLAMParticles_copy_eq Let_def
      drawWithReplacement_eval toyRng_def toyFilter_def toyParticle_def)

section \<open>The update loop\<close>

lemma updateFilter_particles_keys:
  "updateFilter_particles K c pfi E M robot mean front pset idx weights g = Inr (pset', weights', g')
     \<Longrightarrow> map fst pset' = map fst pset \<and> length weights' = length weights"
proof (induction pset arbitrary: idx weights g pset' weights' g')
  case Nil
  then show ?case by simp
next
  case (Cons it rest)
  from Cons.prems obtain pose g1 w p' rest' where
    rec: "updateFilter_particles K c pfi E M robot mean front rest (idx + 1)
            (weights[nat idx := weights ! nat idx + w]) g1 = Inr (rest', weights', g')"
    and pset': "pset' = (fst it, p') # rest'"
    by (auto split: sum.splits if_splits prod.splits)
  from Cons.IH [OF rec] pset' show ?case by simp
qed

text \<open>The loop leaves the queue empty and keeps the keys of the particle set and the
  number of weights.\<close>

lemma updateFilter_loop_drains:
  "updateFilter_loop K c pfi E M mean queue F g = Inr (F', g', queue')
     \<Longrightarrow> queue' = [] \<and> map fst (m_particle_set F') = map fst (m_particle_set F)
       \<and> length (m_particle_weights F') = length (m_particle_weights F)"
proof (induction queue arbitrary: F g)
  case Nil
  then show ?case by simp
next
  case (Cons front queue)
  from Cons.prems obtain pset weights g1 where
    inner: "updateFilter_particles K c pfi E M (m_robot_pf F) mean front (m_particle_set F) 0
              (m_particle_weights F) g = Inr (pset, weights, g1)"
    and rec: "updateFilter_loop K c pfi E M mean queue
              (F\<lparr> m_particle_set := pset, m_particle_weights := weights \<rparr>) g1 = Inr (F', g', queue')"
    by (auto split: sum.splits prod.splits)
  from Cons.IH [OF rec] updateFilter_particles_keys [OF inner] show ?case by simp
qed

text \<open>
  C3. The claim asks that the increment particle \<open>i\<close> returns is added to \<open>weights[i]\<close>.
  The loop counts the entries it visits in \<open>idx\<close> and adds to \<open>weights[idx]\<close>, whatever the
  key of the entry is. The particle set is an unordered map; in this filter of two fresh
  particles a range-for visits key 1 before key 0, as the map of libstdc++ does after
  the keys 0 and 1 were inserted in that order. The process noise is the identity and the
  queue holds the observation 2 twice. The poses drawn for particle 1 are the mean; those
  drawn for particle 0 are 3 units off. Particle 1 places its landmark at 2 and matches
  it at the second observation: its increments are \<open>1/2\<close> and 1. Particle 0 places its
  landmark at 5 and does not match it: its increments are \<open>1/2\<close> and \<open>1/2\<close>. After
  \<open>updateFilter\<close> the weights are \<open>[2, 3/2]\<close>: the increments of particle 1 went to
  \<open>weights[0]\<close> and those of particle 0 to \<open>weights[1]\<close>. The queue is drained and the
  resampling has run once, on these weights.
\<close>

theorem updateFilter_failing:
  "updateParticle_pose toyK False toyCodes 2 pose0 (toyParticle (Some (toyRobot One3f)) [])
     = Inr (1 / 2, toyParticle (Some (toyRobot One3f)) [(2, 1)])
   \<and> updateParticle_pose toyK False toyCodes 2 pose0 (toyParticle (Some (toyRobot One3f)) [(2, 1)])
     = Inr (1, (toyParticle (Some (toyRobot One3f)) [])
                 \<lparr> m_lmekf_bank := [((2, 2), 2)], m_curr_max_wn := 1 \<rparr>)
   \<and> updateParticle_pose toyK False toyCodes 2 (pose0\<lparr> x := 3 \<rparr>)
        (toyParticle (Some (toyRobot One3f)) [])
     = Inr (1 / 2, (toyParticle (Some (toyRobot One3f)) [(5, 1)]) \<lparr> m_robot_pose := pose0\<lparr> x := 3 \<rparr> \<rparr>)
   \<and> updateParticle_pose toyK False toyCodes 2 (pose0\<lparr> x := 3 \<rparr>)
        ((toyParticle (Some (toyRobot One3f)) [(5, 1)]) \<lparr> m_robot_pose := pose0\<lparr> x := 3 \<rparr> \<rparr>)
     = Inr (1 / 2, (toyParticle (Some (toyRobot One3f)) [])
                 \<lparr> m_robot_pose := pose0\<lparr> x := 3 \<rparr>,
                   m_lmekf_bank := [((5, 2), 1), ((5, 0), 1)], m_data_label := 1 \<rparr>)
   \<and> updateFilter toyK False toyCodes toyEigen toyRng pose0 [2, 2]
       (toyFilter (toyRobot One3f)
          [(1, toyParticle (Some (toyRobot One3f)) []),
           (0, toyParticle (Some (toyRobot One3f)) [])] [1 / 2, 1 / 2])
       [0, 0, 0, 3, 0, 0, 0, 0, 0, 3, 0, 0, 2 / 7, 4 / 7]
     = Inr (toyFilter (toyRobot One3f)
              [(1, (toyParticle (Some (toyRobot One3f)) [])
                     \<lparr> m_robot_pose := pose0\<lparr> x := 3 \<rparr>, m_data_label := 1 \<rparr>),
               (0, (toyParticle (Some (toyRobot One3f)) [])
                     \<lparr> m_robot_pose := pose0\<lparr> x := 3 \<rparr>, m_data_label := 1 \<rparr>)]
              [1 / 2 + 1 / 2 + 1, 1 / 2 + 1 / 2 + 1 / 2],
            [], [])"
proof (intro conjI)
  let ?R = "toyRobot One3f"
  let ?fresh = "toyParticle (Some ?R) []"
  let ?p1 = "(toyParticle (Some ?R) []) \<lparr> m_lmekf_bank := [((2, 2), 2)], m_curr_max_wn := 1 \<rparr>"
  let ?p0 = "(toyParticle (Some ?R) [])
               \<lparr> m_robot_pose := pose0\<lparr> x := 3 \<rparr>,
                 m_lmekf_bank := [((5, 2), 1), ((5, 0), 1)], m_data_label := 1 \<rparr>"
  show "updateParticle_pose toyK False toyCodes 2 pose0 ?fresh
     = Inr (1 / 2, toyParticle (Some ?R) [(2, 1)])"
    by (simp add: particle_eval toyK_def toyRobot_def toyCodes_def pose0_def toyParticle_def)
  show "updateParticle_pose toyK False toyCodes 2 pose0 (toyParticle (Some ?R) [(2, 1)])
     = Inr (1, ?p1)"
    by (simp add: particle_eval toyK_def toyRobot_def toyCodes_def pose0_def toyParticle_def)
  show "updateParticle_pose toyK False toyCodes 2 (pose0\<lparr> x := 3 \<rparr>) ?fresh
     = Inr (1 / 2, (toyParticle (Some ?R) [(5, 1)]) \<lparr> m_robot_pose := pose0\<lparr> x := 3 \<rparr> \<rparr>)"
    by (simp add: particle_eval toyK_def toyRobot_def toyCodes_def pose0_def toyParticle_def)
  show "updateParticle_pose toyK False toyCodes 2 (pose0\<lparr> x := 3 \<rparr>)
        ((toyParticle (Some ?R) [(5, 1)]) \<lparr> m_robot_pose := pose0\<lparr> x := 3 \<rparr> \<rparr>)
     = Inr (1 / 2, ?p0)"
    by (simp add: particle_eval toyK_def toyRobot_def toyCodes_def pose0_def toyParticle_def)
  have loop: "updateFilter_loop toyK False toyCodes toyEigen toyRng pose0 [2, 2]
       (toyFilter ?R [(1, ?fresh), (0, ?fresh)] [1 / 2, 1 / 2])
       [0, 0, 0, 3, 0, 0, 0, 0, 0, 3, 0, 0, 2 / 7, 4 / 7]
     = Inr (toyFilter ?R [(1, ?p1), (0, ?p0)] [2, 3 / 2], [2 / 7, 4 / 7], [])"
    by (simp add: samplePose_def particle_eval toyK_def toyRobot_def toyEigen_def
        toyRng_def toyCodes_def pose0_def toyParticle_def toyFilter_def One3f_def)
  have resample: "reSampleParticles toyRng (toyFilter ?R [(1, ?p1), (0, ?p0)] [2, 3 / 2])
       [2 / 7, 4 / 7]
     = Inr (toyFilter ?R
              [(1, (toyParticle (Some ?R) [])
                     \<lparr> m_robot_pose := pose0\<lparr> x := 3 \<rparr>, m_data_label := 1 \<rparr>),
               (0, (toyParticle (Some ?R) [])
                     \<lparr> m_robot_pose := pose0\<lparr> x := 3 \<rparr>, m_data_label := 1 \<rparr>)]
              [2, 3 / 2], [])"
    by (simp add: reSampleParticles_def genCDF_def umap_insert_def FastSLAMParticles_copy_eq
        Let_def drawWithReplacement_eval toyRng_def toyFilter_def toyParticle_def)
  show "updateFilter toyK False toyCodes toyEigen toyRng pose0 [2, 2]
       (toyFilter ?R [(1, ?fresh), (0, ?fresh)] [1 / 2, 1 / 2])
       [0, 0, 0, 3, 0, 0, 0, 0, 0, 3, 0, 0, 2 / 7, 4 / 7]
     = Inr (toyFilter ?R
              [(1, (toyParticle (Some ?R) [])
                     \<lparr> m_robot_pose := pose0\<lparr> x := 3 \<rparr>, m_data_label := 1 \<rparr>),
               (0, (toyParticle (Some ?R) [])
                     \<lparr> m_robot_pose := pose0\<lparr> x := 3 \<rparr>, m_data_label := 1 \<rparr>)]
              [1 / 2 + 1 / 2 + 1, 1 / 2 + 1 / 2 + 1 / 2],
            [], [])"
    unfolding updateFilter_def loop by (simp add: resample)
qed

end
